theory Spec2Isabelle
  imports Complex_Main
begin

section \<open>Floating-point values without rounding\<close>

text \<open>
  The solvers of \<^verbatim>\<open>icetemperature/lib/analytical_solutions.py\<close> compute with numpy
  double-precision scalars and arrays: every value they combine comes from \<^verbatim>\<open>m.z\<close>, from
  \<^verbatim>\<open>np.sqrt\<close>, \<^verbatim>\<open>np.log\<close>, \<^verbatim>\<open>np.mean\<close> or from a scipy special function. A value is
  modelled as either a finite real number (\<open>Fin\<close>, arithmetic without rounding or overflow)
  or \<open>NonFinite\<close>, which stands for the values numpy produces where the real-valued
  expression is undefined: not-a-number and the two infinities. numpy arithmetic does not
  raise there; it yields such a value with a warning. \<open>NonFinite\<close> is absorbing and every
  comparison with it is false, as for not-a-number; an infinity is not told apart from
  not-a-number.
\<close>

datatype fl = Fin real | NonFinite

instantiation fl :: "{zero, one, plus, minus, uminus, times, inverse}"
begin

definition zero_fl :: fl where "zero_fl = Fin 0"

definition one_fl :: fl where "one_fl = Fin 1"

definition plus_fl :: "fl \<Rightarrow> fl \<Rightarrow> fl" where
  "plus_fl a b = (case a of Fin x \<Rightarrow> (case b of Fin y \<Rightarrow> Fin (x + y) | NonFinite \<Rightarrow> NonFinite)
                  | NonFinite \<Rightarrow> NonFinite)"

definition minus_fl :: "fl \<Rightarrow> fl \<Rightarrow> fl" where
  "minus_fl a b = (case a of Fin x \<Rightarrow> (case b of Fin y \<Rightarrow> Fin (x - y) | NonFinite \<Rightarrow> NonFinite)
                   | NonFinite \<Rightarrow> NonFinite)"

definition uminus_fl :: "fl \<Rightarrow> fl" where
  "uminus_fl a = (case a of Fin x \<Rightarrow> Fin (- x) | NonFinite \<Rightarrow> NonFinite)"

definition times_fl :: "fl \<Rightarrow> fl \<Rightarrow> fl" where
  "times_fl a b = (case a of Fin x \<Rightarrow> (case b of Fin y \<Rightarrow> Fin (x * y) | NonFinite \<Rightarrow> NonFinite)
                   | NonFinite \<Rightarrow> NonFinite)"

definition divide_fl :: "fl \<Rightarrow> fl \<Rightarrow> fl" where
  \<comment> \<open>\<open>x / 0\<close> is an infinity or not-a-number in numpy\<close>
  "divide_fl a b = (case a of Fin x \<Rightarrow>
                      (case b of Fin y \<Rightarrow> (if y = 0 then NonFinite else Fin (x / y))
                       | NonFinite \<Rightarrow> NonFinite)
                    | NonFinite \<Rightarrow> NonFinite)"

definition inverse_fl :: "fl \<Rightarrow> fl" where
  "inverse_fl a = (case a of Fin y \<Rightarrow> (if y = 0 then NonFinite else Fin (1 / y))
                   | NonFinite \<Rightarrow> NonFinite)"

instance ..

end

definition fsqrt :: "fl \<Rightarrow> fl" where
  \<comment> \<open>\<^verbatim>\<open>np.sqrt\<close>: not-a-number below zero\<close>
  "fsqrt a = (case a of Fin x \<Rightarrow> (if x < 0 then NonFinite else Fin (sqrt x))
              | NonFinite \<Rightarrow> NonFinite)"

definition fexp :: "fl \<Rightarrow> fl" where
  \<comment> \<open>\<^verbatim>\<open>np.exp\<close>\<close>
  "fexp a = (case a of Fin x \<Rightarrow> Fin (exp x) | NonFinite \<Rightarrow> NonFinite)"

definition flog :: "fl \<Rightarrow> fl" where
  \<comment> \<open>\<^verbatim>\<open>np.log\<close>: minus infinity at zero, not-a-number below\<close>
  "flog a = (case a of Fin x \<Rightarrow> (if x \<le> 0 then NonFinite else Fin (ln x))
             | NonFinite \<Rightarrow> NonFinite)"

definition fabs :: "fl \<Rightarrow> fl" where
  "fabs a = (case a of Fin x \<Rightarrow> Fin \<bar>x\<bar> | NonFinite \<Rightarrow> NonFinite)"

definition is_integral :: "real \<Rightarrow> bool" where
  "is_integral y = (y = of_int \<lfloor>y\<rfloor>)"

definition rpow :: "real \<Rightarrow> real \<Rightarrow> fl" where
  \<comment> \<open>the float power \<^verbatim>\<open>x**y\<close>: a zero base with a negative exponent gives an infinity,
      a negative base with a fractional exponent not-a-number\<close>
  "rpow x y =
     (if 0 < x then Fin (x powr y)
      else if x = 0 then (if 0 < y then Fin 0 else if y = 0 then Fin 1 else NonFinite)
      else if is_integral y then Fin ((if even \<lfloor>y\<rfloor> then 1 else - 1) * (\<bar>x\<bar> powr y))
      else NonFinite)"

definition fpow :: "fl \<Rightarrow> fl \<Rightarrow> fl" where
  "fpow a b = (case a of Fin x \<Rightarrow> (case b of Fin y \<Rightarrow> rpow x y | NonFinite \<Rightarrow> NonFinite)
               | NonFinite \<Rightarrow> NonFinite)"

definition fgt :: "fl \<Rightarrow> fl \<Rightarrow> bool" where
  \<comment> \<open>\<^verbatim>\<open>a > b\<close>\<close>
  "fgt a b = (case a of Fin x \<Rightarrow> (case b of Fin y \<Rightarrow> y < x | NonFinite \<Rightarrow> False)
              | NonFinite \<Rightarrow> False)"

definition flt :: "fl \<Rightarrow> fl \<Rightarrow> bool" where
  \<comment> \<open>\<^verbatim>\<open>a < b\<close>\<close>
  "flt a b = (case a of Fin x \<Rightarrow> (case b of Fin y \<Rightarrow> x < y | NonFinite \<Rightarrow> False)
              | NonFinite \<Rightarrow> False)"

definition lift1 :: "(real \<Rightarrow> real) \<Rightarrow> fl \<Rightarrow> fl" where
  \<comment> \<open>a special function that is finite on every finite argument\<close>
  "lift1 f a = (case a of Fin x \<Rightarrow> Fin (f x) | NonFinite \<Rightarrow> NonFinite)"

definition lift2 :: "(real \<Rightarrow> real \<Rightarrow> fl) \<Rightarrow> fl \<Rightarrow> fl \<Rightarrow> fl" where
  "lift2 f a b = (case a of Fin x \<Rightarrow> (case b of Fin y \<Rightarrow> f x y | NonFinite \<Rightarrow> NonFinite)
                  | NonFinite \<Rightarrow> NonFinite)"

definition lift0 :: "(real \<Rightarrow> fl) \<Rightarrow> fl \<Rightarrow> fl" where
  "lift0 f a = (case a of Fin x \<Rightarrow> f x | NonFinite \<Rightarrow> NonFinite)"

section \<open>Inputs, collaborators and errors\<close>

text \<open>
  \<open>model\<close> is the \<^verbatim>\<open>Model\<close> container read by every solver (fields \<^verbatim>\<open>m.z\<close>,
  \<^verbatim>\<open>m.Ts\<close>, ...), \<open>constants\<close> the \<^verbatim>\<open>constants()\<close> container. Inputs are finite numbers.
\<close>

record model =
  m_z :: "real list"
  m_Ts :: real
  m_H :: real
  m_adot :: real
  m_qgeo :: real
  m_pmp :: "real list"
  m_eps_xy :: real

record constants =
  c_k :: real
  c_rho :: real
  c_Cp :: real
  c_L :: real
  c_g :: real
  c_n :: real
  c_spy :: real

text \<open>
  \<open>env\<close> is the namespace in which the module's functions resolve their global names: the
  scipy special functions and the quadrature routine (\<^verbatim>\<open>erf\<close>, \<^verbatim>\<open>quad(f,a,b)[0]\<close>,
  \<^verbatim>\<open>gammaincc\<close>, \<^verbatim>\<open>gamma\<close>, the real part of \<^verbatim>\<open>lambertw\<close>), the functions imported from
  \<^verbatim>\<open>ice_properties\<close>, and the name \<^verbatim>\<open>H\<close>, which two solvers read as a global: \<open>None\<close> when
  the name is unbound.
\<close>

record env =
  erf :: "real \<Rightarrow> real"
  quad :: "(real \<Rightarrow> fl) \<Rightarrow> real \<Rightarrow> real \<Rightarrow> fl"
  gammaincc :: "real \<Rightarrow> real \<Rightarrow> fl"
  gamma_fn :: "real \<Rightarrow> fl"
  lambertw :: "real \<Rightarrow> real"
  conductivity :: "real \<Rightarrow> real \<Rightarrow> real"
  heat_capacity :: "real \<Rightarrow> real"
  glob_H :: "real option"

datatype error = NameError | IndexError

section \<open>Robin (1955)\<close>

text \<open>
  The solvers return the temperature array. What they print with \<^verbatim>\<open>verbose\<close>, and the melt
  rate \<^verbatim>\<open>M\<close> that \<^verbatim>\<open>Robin_T\<close> computes only to print it, do not reach the returned value
  and are left out.
\<close>

definition robin_f :: "fl \<Rightarrow> real \<Rightarrow> fl" where
  \<comment> \<open>\<^verbatim>\<open>f = lambda z : np.exp(-(z**2.)*q2)\<close>\<close>
  "robin_f q2 z = fexp (- (fpow (Fin z) (Fin 2)) * q2)"

definition robin_profile :: "env \<Rightarrow> model \<Rightarrow> fl \<Rightarrow> fl \<Rightarrow> error + fl list" where
  \<comment> \<open>\<^verbatim>\<open>TTb = Tb_grad*np.array([quad(f,0,zi)[0] for zi in m.z]); dTs = m.Ts - TTb[-1];
      T = TTb + dTs\<close>\<close>
  "robin_profile e m q2 Tb_grad =
     (let TTb = map (\<lambda>zi. Tb_grad * quad e (robin_f q2) 0 zi) (m_z m)
      in if TTb = [] then Inl IndexError
         else (let dTs = Fin (m_Ts m) - last TTb in Inr (map (\<lambda>t. t + dTs) TTb)))"

definition robin_melt_grad :: "env \<Rightarrow> model \<Rightarrow> fl \<Rightarrow> fl \<Rightarrow> real \<Rightarrow> fl" where
  \<comment> \<open>line 57, the basal gradient of the re-solve\<close>
  "robin_melt_grad e m alpha q2 pmp0 =
     - Fin 2 * fsqrt q2 * (Fin pmp0 - Fin (m_Ts m)) / fsqrt (Fin pi)
       * fpow (fsqrt (lift1 (erf e) (Fin (m_adot m) * Fin (m_H m) / (Fin 2 * alpha)))) (Fin (- 1))"

definition Robin_T :: "env \<Rightarrow> model \<Rightarrow> constants \<Rightarrow> bool \<Rightarrow> error + fl list" where
  \<comment> \<open>\<^verbatim>\<open>if melt and T[0] > m.pmp[0]\<close>: \<^verbatim>\<open>m.pmp\<close> is read only when \<^verbatim>\<open>melt\<close> is true\<close>
  "Robin_T e m c melt =
     (let alpha = Fin (c_k c) / (Fin (c_rho c) * Fin (c_Cp c));
          q2 = Fin (m_adot m) / (Fin 2 * alpha * Fin (m_H m));
          Tb_grad = - Fin (m_qgeo m) / Fin (c_k c)
      in case robin_profile e m q2 Tb_grad of
           Inl err \<Rightarrow> Inl err
         | Inr T \<Rightarrow>
             if melt then
               (case T of
                  [] \<Rightarrow> Inl IndexError
                | T0 # _ \<Rightarrow>
                    (case m_pmp m of
                       [] \<Rightarrow> Inl IndexError
                     | pmp0 # _ \<Rightarrow>
                         if fgt T0 (Fin pmp0)
                         then robin_profile e m q2 (robin_melt_grad e m alpha q2 pmp0)
                         else Inr T))
             else Inr T)"

definition diffusivity :: "constants \<Rightarrow> fl" where
  \<comment> \<open>\<^verbatim>\<open>alpha = const.k/(const.rho*const.Cp)\<close>\<close>
  "diffusivity c = Fin (c_k c) / (Fin (c_rho c) * Fin (c_Cp c))"

definition robin_q2 :: "model \<Rightarrow> constants \<Rightarrow> fl" where
  \<comment> \<open>\<^verbatim>\<open>q2 = m.adot/(2*alpha*m.H)\<close>\<close>
  "robin_q2 m c = Fin (m_adot m) / (Fin 2 * diffusivity c * Fin (m_H m))"

definition robin_point :: "env \<Rightarrow> model \<Rightarrow> fl \<Rightarrow> fl \<Rightarrow> real \<Rightarrow> fl" where
  \<comment> \<open>the entry of \<^verbatim>\<open>TTb + dTs\<close> at depth \<open>zi\<close>, for the basal gradient \<open>Tb_grad\<close>; the
      theorems state the profiles of \<open>robin_profile\<close> with it\<close>
  "robin_point e m q2 Tb_grad zi =
     Tb_grad * quad e (robin_f q2) 0 zi
       + (Fin (m_Ts m) - Tb_grad * quad e (robin_f q2) 0 (last (m_z m)))"

section \<open>Rezvanbehbahani et al. (2019)\<close>

definition rezvan_gamma :: "model \<Rightarrow> fl \<Rightarrow> real \<Rightarrow> bool \<Rightarrow> fl" where
  \<comment> \<open>lines 106-113: with \<^verbatim>\<open>gamma_plus\<close> the argument \<^verbatim>\<open>gamma\<close> is overwritten\<close>
  "rezvan_gamma m alpha gamma gamma_plus =
     (if gamma_plus
      then (let Pe = Fin (m_adot m) * Fin (m_H m) / alpha
            in Fin 1.39 + Fin 0.044 * flog Pe)
      else Fin gamma)"

definition rezvan_tau :: "env \<Rightarrow> constants \<Rightarrow> real \<Rightarrow> real \<Rightarrow> error + real" where
  \<comment> \<open>lines 114-116: \<^verbatim>\<open>tau_dx = const.rho*const.g*H*abs(dHdx)\<close> reads the global \<^verbatim>\<open>H\<close>\<close>
  "rezvan_tau e c dHdx tau_dx =
     (if dHdx \<noteq> 0 \<and> tau_dx = 0
      then (case glob_H e of
              None \<Rightarrow> Inl NameError
            | Some Hg \<Rightarrow> Inr (c_rho c * c_g c * Hg * \<bar>dHdx\<bar>))
      else Inr tau_dx)"

definition rezvan_qgeo :: "model \<Rightarrow> constants \<Rightarrow> (real \<Rightarrow> constants \<Rightarrow> real) \<Rightarrow> real \<Rightarrow> real
    \<Rightarrow> fl option" where
  \<comment> \<open>lines 117-122: the local \<^verbatim>\<open>qgeo\<close>, assigned only when \<^verbatim>\<open>tau_dx != 0\<close>\<close>
  "rezvan_qgeo m c rate_factor T_ratefactor tau_dx =
     (if tau_dx \<noteq> 0
      then (let A = rate_factor T_ratefactor c;
                qgeo_s = Fin (2 / 5) * Fin A * Fin (m_H m) * fpow (Fin tau_dx) (Fin 4)
            in Some (Fin (m_qgeo m) + qgeo_s))
      else None)"

definition rezvan_Gamma :: "env \<Rightarrow> fl \<Rightarrow> fl \<Rightarrow> real \<Rightarrow> fl" where
  \<comment> \<open>\<^verbatim>\<open>\<gamma>incc(1/(1+gamma),-phi*x**(gamma+1))*\<gamma>(1/(1+gamma))\<close>\<close>
  "rezvan_Gamma e gamma phi x =
     lift2 (gammaincc e) (Fin 1 / (Fin 1 + gamma)) (- phi * fpow (Fin x) (gamma + Fin 1))
       * lift0 (gamma_fn e) (Fin 1 / (Fin 1 + gamma))"

definition rezvan_point :: "env \<Rightarrow> model \<Rightarrow> constants \<Rightarrow> fl \<Rightarrow> fl \<Rightarrow> real \<Rightarrow> fl" where
  \<comment> \<open>lines 124-131 at one depth; the flux in line 131 is \<^verbatim>\<open>m.qgeo\<close>\<close>
  "rezvan_point e m c alpha gamma zi =
     (let lamb = Fin (m_adot m) / (alpha * fpow (Fin (m_H m)) gamma);
          phi = - lamb / (gamma + Fin 1);
          term2 = rezvan_Gamma e gamma phi zi - rezvan_Gamma e gamma phi (m_H m)
      in Fin (m_Ts m)
           + Fin (m_qgeo m) * fpow (- phi) (Fin (- 1) / (gamma + Fin 1))
               / (Fin (c_k c) * (gamma + Fin 1)) * term2)"

definition Rezvan_T :: "env \<Rightarrow> model \<Rightarrow> constants \<Rightarrow> (real \<Rightarrow> constants \<Rightarrow> real) \<Rightarrow> real
    \<Rightarrow> real \<Rightarrow> real \<Rightarrow> real \<Rightarrow> bool \<Rightarrow> error + fl list" where
  "Rezvan_T e m c rate_factor T_ratefactor dHdx tau_dx gamma gamma_plus =
     (let alpha = Fin (c_k c) / (Fin (c_rho c) * Fin (c_Cp c));
          gamma' = rezvan_gamma m alpha gamma gamma_plus
      in case rezvan_tau e c dHdx tau_dx of
           Inl err \<Rightarrow> Inl err
         | Inr tau \<Rightarrow>
             (let qgeo = rezvan_qgeo m c rate_factor T_ratefactor tau
              in Inr (map (rezvan_point e m c alpha gamma') (m_z m))))"

section \<open>Meyer and Minchew (2018)\<close>

definition bulk_temperature :: "model \<Rightarrow> real option \<Rightarrow> error + real" where
  \<comment> \<open>\<^verbatim>\<open>if T_bulk == 'average': T_bulk = np.mean([m.Ts,m.pmp[0]])\<close>; \<open>None\<close> is \<^verbatim>\<open>'average'\<close>\<close>
  "bulk_temperature m T_bulk =
     (case T_bulk of
        Some t \<Rightarrow> Inr t
      | None \<Rightarrow> (case m_pmp m of
                   [] \<Rightarrow> Inl IndexError
                 | pmp0 # _ \<Rightarrow> Inr ((m_Ts m + pmp0) / 2)))"

definition clamp_temperate :: "real \<Rightarrow> fl \<Rightarrow> real list \<Rightarrow> fl list \<Rightarrow> fl list" where
  \<comment> \<open>\<^verbatim>\<open>T[m.z/Hd < hbar] = 0.\<close> for the divisor \<^verbatim>\<open>Hd\<close>\<close>
  "clamp_temperate Hd hbar zs T =
     map (\<lambda>(zi, t). if flt (Fin zi / Fin Hd) hbar then Fin 0 else t) (zip zs T)"

definition meyer_S :: "model \<Rightarrow> constants \<Rightarrow> real \<Rightarrow> fl" where
  "meyer_S m c A =
     Fin 2 * fpow (Fin A) (Fin (- 1) / Fin (c_n c))
       * fpow (Fin (m_eps_xy m)) ((Fin (c_n c) + Fin 1) / Fin (c_n c))"

definition meyer_Pe :: "model \<Rightarrow> constants \<Rightarrow> real \<Rightarrow> real \<Rightarrow> fl" where
  "meyer_Pe m c k Cp = (Fin (c_rho c) * Fin Cp * Fin (m_adot m) * Fin (m_H m)) / Fin k"

definition meyer_Br :: "model \<Rightarrow> real \<Rightarrow> real \<Rightarrow> fl \<Rightarrow> fl" where
  \<comment> \<open>\<^verbatim>\<open>Br = (S*m.H**2.)/(k*dT)\<close>\<close>
  "meyer_Br m k dT S = (S * fpow (Fin (m_H m)) (Fin 2)) / (Fin k * Fin dT)"

definition meyer_LAM :: "model \<Rightarrow> real \<Rightarrow> real \<Rightarrow> real \<Rightarrow> fl" where
  \<comment> \<open>\<^verbatim>\<open>LAM = lam*m.H**2./(k*dT)\<close>\<close>
  "meyer_LAM m k dT lam = Fin lam * fpow (Fin (m_H m)) (Fin 2) / (Fin k * Fin dT)"

definition meyer_crit :: "model \<Rightarrow> constants \<Rightarrow> real \<Rightarrow> real \<Rightarrow> real \<Rightarrow> fl" where
  \<comment> \<open>\<^verbatim>\<open>(k*dT/(A**(-1/const.n)*m.H**(2.)))**(const.n/(const.n+1.))\<close>\<close>
  "meyer_crit m c k dT A =
     fpow (Fin k * Fin dT / (fpow (Fin A) (Fin (- 1) / Fin (c_n c)) * fpow (Fin (m_H m)) (Fin 2)))
          (Fin (c_n c) / (Fin (c_n c) + Fin 1))"

definition meyer_hbar_diff :: "model \<Rightarrow> constants \<Rightarrow> real \<Rightarrow> real \<Rightarrow> real \<Rightarrow> fl \<Rightarrow> fl" where
  \<comment> \<open>lines 187-192\<close>
  "meyer_hbar_diff m c k dT A Br =
     (let eps_bar = meyer_crit m c k dT A
      in if fgt (Fin (m_eps_xy m)) eps_bar then Fin 1 - fsqrt (Fin 2 / Br) else Fin 0)"

definition meyer_point_diff :: "model \<Rightarrow> real \<Rightarrow> fl \<Rightarrow> fl \<Rightarrow> real \<Rightarrow> fl" where
  \<comment> \<open>line 194 at one depth\<close>
  "meyer_point_diff m dT Br hbar zi =
     Fin (m_Ts m)
       + Fin dT * (Br / Fin 2)
           * (Fin 1 - fpow (Fin zi / Fin (m_H m)) (Fin 2)
                - Fin 2 * hbar * (Fin 1 - Fin zi / Fin (m_H m)))"

definition meyer_hbar_adv :: "env \<Rightarrow> model \<Rightarrow> constants \<Rightarrow> real \<Rightarrow> real \<Rightarrow> real \<Rightarrow> fl \<Rightarrow> fl
    \<Rightarrow> fl \<Rightarrow> fl" where
  \<comment> \<open>lines 198-206\<close>
  "meyer_hbar_adv e m c k dT A Br Pe LAM =
     (let eps_1 = fpow ((Fin 0.5 * fpow Pe (Fin 2)) / (Pe - Fin 1 + fexp (- Pe)) + Fin 0.5 * LAM)
                       (Fin (c_n c) / (Fin (c_n c) + Fin 1));
          eps_bar = eps_1 * meyer_crit m c k dT A
      in if fgt (Fin (m_eps_xy m)) eps_bar
         then (let h_1 = Fin 1 - (Pe / (Br - LAM));
                   h_2 = - (Fin 1 / Pe)
                           * (Fin 1 + lift1 (lambertw e)
                                        (- fexp (- (fpow Pe (Fin 2) / (Br - LAM)) - Fin 1)))
               in h_1 + h_2)
         else Fin 0)"

definition meyer_point_adv :: "model \<Rightarrow> real \<Rightarrow> fl \<Rightarrow> fl \<Rightarrow> fl \<Rightarrow> fl \<Rightarrow> real \<Rightarrow> fl" where
  \<comment> \<open>line 207 at one depth\<close>
  "meyer_point_adv m dT Br Pe LAM hbar zi =
     Fin (m_Ts m)
       + Fin dT * ((Br - LAM) / Pe)
           * (Fin 1 - Fin zi / Fin (m_H m) + (Fin 1 / Pe) * fexp (Pe * (hbar - Fin 1))
                - (Fin 1 / Pe) * fexp (Pe * (hbar - Fin zi / Fin (m_H m))))"

definition Meyer_T :: "env \<Rightarrow> model \<Rightarrow> constants \<Rightarrow> (real \<Rightarrow> constants \<Rightarrow> real) \<Rightarrow> real option
    \<Rightarrow> real \<Rightarrow> real \<Rightarrow> error + fl list" where
  "Meyer_T e m c rate_factor T_bulk Tb lam =
     (case bulk_temperature m T_bulk of
        Inl err \<Rightarrow> Inl err
      | Inr Tbulk \<Rightarrow>
          (let k = conductivity e Tbulk (c_rho c);
               Cp = heat_capacity e Tbulk;
               A = rate_factor Tbulk c;
               S = meyer_S m c A;
               dT = Tb - m_Ts m;
               Br = meyer_Br m k dT S;
               Pe = meyer_Pe m c k Cp;
               LAM = meyer_LAM m k dT lam
           in if flt (fabs Pe) (Fin 0.001)
              then (let hbar = meyer_hbar_diff m c k dT A Br;
                        T = map (meyer_point_diff m dT Br hbar) (m_z m)
                    in case glob_H e of
                         None \<Rightarrow> Inl NameError
                       | Some Hg \<Rightarrow> Inr (clamp_temperate Hg hbar (m_z m) T))
              else (let hbar = meyer_hbar_adv e m c k dT A Br Pe LAM;
                        T = map (meyer_point_adv m dT Br Pe LAM hbar) (m_z m)
                    in Inr (clamp_temperate (m_H m) hbar (m_z m) T))))"

definition meyer_small_Pe :: "env \<Rightarrow> model \<Rightarrow> constants \<Rightarrow> real \<Rightarrow> bool" where
  \<comment> \<open>the branch condition \<^verbatim>\<open>abs(Pe) < 1e-3\<close> of a call with bulk temperature \<open>Tbulk\<close>\<close>
  "meyer_small_Pe e m c Tbulk =
     flt (fabs (meyer_Pe m c (conductivity e Tbulk (c_rho c)) (heat_capacity e Tbulk))) (Fin 0.001)"

definition meyer_hbar :: "env \<Rightarrow> model \<Rightarrow> constants \<Rightarrow> (real \<Rightarrow> constants \<Rightarrow> real) \<Rightarrow> real
    \<Rightarrow> real \<Rightarrow> real \<Rightarrow> fl" where
  \<comment> \<open>the temperate-thickness fraction \<^verbatim>\<open>hbar\<close> of a call with bulk temperature \<open>Tbulk\<close>\<close>
  "meyer_hbar e m c rate_factor Tbulk Tb lam =
     (let k = conductivity e Tbulk (c_rho c);
          Cp = heat_capacity e Tbulk;
          A = rate_factor Tbulk c;
          S = meyer_S m c A;
          dT = Tb - m_Ts m;
          Br = meyer_Br m k dT S;
          Pe = meyer_Pe m c k Cp;
          LAM = meyer_LAM m k dT lam
      in if flt (fabs Pe) (Fin 0.001) then meyer_hbar_diff m c k dT A Br
         else meyer_hbar_adv e m c k dT A Br Pe LAM)"

definition meyer_unclamped :: "env \<Rightarrow> model \<Rightarrow> constants \<Rightarrow> (real \<Rightarrow> constants \<Rightarrow> real) \<Rightarrow> real
    \<Rightarrow> real \<Rightarrow> real \<Rightarrow> real \<Rightarrow> fl" where
  \<comment> \<open>the entry at depth \<open>zi\<close> of the array \<^verbatim>\<open>T\<close> of line 194 or line 207, before the mask is
      applied, in a call with bulk temperature \<open>Tbulk\<close>\<close>
  "meyer_unclamped e m c rate_factor Tbulk Tb lam zi =
     (let k = conductivity e Tbulk (c_rho c);
          Cp = heat_capacity e Tbulk;
          A = rate_factor Tbulk c;
          S = meyer_S m c A;
          dT = Tb - m_Ts m;
          Br = meyer_Br m k dT S;
          Pe = meyer_Pe m c k Cp;
          LAM = meyer_LAM m k dT lam
      in if flt (fabs Pe) (Fin 0.001)
         then meyer_point_diff m dT Br (meyer_hbar_diff m c k dT A Br) zi
         else meyer_point_adv m dT Br Pe LAM (meyer_hbar_adv e m c k dT A Br Pe LAM) zi)"

section \<open>Perol and Rice (2015)\<close>

definition perol_f1 :: "model \<Rightarrow> fl \<Rightarrow> real \<Rightarrow> real \<Rightarrow> fl" where
  \<comment> \<open>\<^verbatim>\<open>(1.-np.exp(-lam*Pe*m.z[i]**2./(2.*m.H**2.)))/(2.*lam*np.sqrt(1.-lam))\<close>\<close>
  "perol_f1 m Pe zi lam =
     (Fin 1 - fexp (- Fin lam * Pe * fpow (Fin zi) (Fin 2) / (Fin 2 * fpow (Fin (m_H m)) (Fin 2))))
       / (Fin 2 * Fin lam * fsqrt (Fin 1 - Fin lam))"

definition perol_f2 :: "fl \<Rightarrow> real \<Rightarrow> fl" where
  \<comment> \<open>\<^verbatim>\<open>(1.-np.exp(-lam*Pe/2.))/(2.*lam*np.sqrt(1.-lam))\<close>\<close>
  "perol_f2 Pe lam =
     (Fin 1 - fexp (- Fin lam * Pe / Fin 2)) / (Fin 2 * Fin lam * fsqrt (Fin 1 - Fin lam))"

definition perol_Pe :: "model \<Rightarrow> constants \<Rightarrow> real \<Rightarrow> real \<Rightarrow> fl" where
  \<comment> \<open>\<^verbatim>\<open>Pe = m.adot*m.H/(k/(const.rho*Cp))\<close>\<close>
  "perol_Pe m c k Cp = Fin (m_adot m) * Fin (m_H m) / (Fin k / (Fin (c_rho c) * Fin Cp))"

definition perol_S :: "model \<Rightarrow> constants \<Rightarrow> real \<Rightarrow> fl" where
  \<comment> \<open>\<^verbatim>\<open>S = 2.*A**(-1./const.n)*(m.eps_xy/2.)**((const.n+1.)/const.n)\<close>\<close>
  "perol_S m c A =
     Fin 2 * fpow (Fin A) (Fin (- 1) / Fin (c_n c))
       * fpow (Fin (m_eps_xy m) / Fin 2) ((Fin (c_n c) + Fin 1) / Fin (c_n c))"

definition perol_point :: "env \<Rightarrow> model \<Rightarrow> real \<Rightarrow> fl \<Rightarrow> fl \<Rightarrow> real \<Rightarrow> real \<Rightarrow> fl" where
  \<comment> \<open>lines 259-261, the value stored in \<^verbatim>\<open>T[i]\<close> for \<^verbatim>\<open>m.z[i] = zi\<close>\<close>
  "perol_point e m k Pe S pmp0 zi =
     Fin pmp0
       + (Fin (m_Ts m) - Fin pmp0) * lift1 (erf e) (fsqrt (Pe / Fin 2) * (Fin zi / Fin (m_H m)))
           / lift1 (erf e) (fsqrt (Pe / Fin 2))
       - S * fpow (Fin (m_H m)) (Fin 2) / (Fin k * Pe)
           * (quad e (perol_f1 m Pe zi) 0 1
                - (lift1 (erf e) (fsqrt (Pe / Fin 2) * (Fin zi / Fin (m_H m)))
                     / lift1 (erf e) (fsqrt (Pe / Fin 2)))
                  * quad e (perol_f2 Pe) 0 1)"

definition perol_loop :: "env \<Rightarrow> model \<Rightarrow> real \<Rightarrow> fl \<Rightarrow> fl \<Rightarrow> real \<Rightarrow> fl list \<Rightarrow> fl list" where
  \<comment> \<open>\<^verbatim>\<open>for i in range(len(m.z)): T[i] = ...\<close>, from the array \<open>T\<close>\<close>
  "perol_loop e m k Pe S pmp0 T =
     foldl (\<lambda>T i. T[i := perol_point e m k Pe S pmp0 (m_z m ! i)]) T [0..<length (m_z m)]"

definition Perol_T :: "env \<Rightarrow> model \<Rightarrow> constants \<Rightarrow> (real \<Rightarrow> constants \<Rightarrow> real) \<Rightarrow> real option
    \<Rightarrow> error + fl list" where
  \<comment> \<open>\<^verbatim>\<open>T = np.empty_like(m.z)\<close> is an array of the grid's length with arbitrary entries; the
      loop reads \<^verbatim>\<open>m.pmp[0]\<close> in each of its rounds\<close>
  "Perol_T e m c rate_factor T_bulk =
     (case bulk_temperature m T_bulk of
        Inl err \<Rightarrow> Inl err
      | Inr Tbulk \<Rightarrow>
          (let k = conductivity e Tbulk (c_rho c);
               Cp = heat_capacity e Tbulk;
               A = rate_factor Tbulk c;
               Pe = perol_Pe m c k Cp;
               S = perol_S m c A;
               T = replicate (length (m_z m)) NonFinite
           in if m_z m = [] then Inr T
              else (case m_pmp m of
                      [] \<Rightarrow> Inl IndexError
                    | pmp0 # _ \<Rightarrow> Inr (perol_loop e m k Pe S pmp0 T))))"

section \<open>Accuracy of the quadrature routine\<close>

text \<open>
  What the theorems on numerical values assume of \<^verbatim>\<open>quad\<close>. On the integrand of the Robin
  solution, \<open>exp (- q t\<^sup>2)\<close> with \<open>1 - q t\<^sup>2 \<le> exp (- q t\<^sup>2) \<le> 1\<close>, the exact integral over
  \<open>[0, b]\<close> lies between \<open>b - q b\<^sup>3 / 3\<close> and \<open>b\<close>, and equals
  \<open>sqrt pi / (2 sqrt q) * erf (sqrt q * b)\<close>. The routine evaluates an integrand at interior
  points of the interval only, so an integrand that vanishes there integrates to zero.
\<close>

definition quad_gauss_accurate :: "env \<Rightarrow> bool" where
  "quad_gauss_accurate e =
     (\<forall>q b. 0 \<le> q \<and> 0 \<le> b \<longrightarrow>
        (\<exists>v. quad e (robin_f (Fin q)) 0 b = Fin v \<and> \<bar>v - b\<bar> \<le> q * b ^ 3 / 3))"

definition quad_gauss_erf :: "env \<Rightarrow> bool" where
  "quad_gauss_erf e =
     (\<forall>q b. 0 < q \<longrightarrow>
        quad e (robin_f (Fin q)) 0 b = Fin (sqrt pi / (2 * sqrt q) * erf e (sqrt q * b)))"

definition quad_interior :: "env \<Rightarrow> bool" where
  "quad_interior e =
     (\<forall>f. (\<forall>x. 0 < x \<and> x < 1 \<longrightarrow> f x = Fin 0) \<longrightarrow> quad e f 0 1 = Fin 0)"

section \<open>A sample namespace and sample inputs\<close>

text \<open>
  The theorems below hold for every namespace. To evaluate the solvers on concrete inputs,
  \<open>sample_env\<close> fixes one: the quadrature routine is the midpoint rule and \<open>erf\<close> is the
  midpoint-rule value of its defining integral, so that the two are consistent on the
  integrand of the Robin solution; the gamma functions and the Lambert W function are
  replaced by simple expressions that are exact at \<open>a = 1\<close> and at \<open>0\<close>; conductivity, heat
  capacity and rate factor are constant.
\<close>

definition sample_env :: "real option \<Rightarrow> env" where
  "sample_env Hg =
     \<lparr>erf = (\<lambda>x. 2 / sqrt pi * x * exp (- ((x / 2)\<^sup>2))),
      quad = (\<lambda>f a b. Fin (b - a) * f ((a + b) / 2)),
      gammaincc = (\<lambda>a x. if 0 < a \<and> 0 \<le> x then Fin (exp (- x)) else NonFinite),
      gamma_fn = (\<lambda>a. if 0 < a then Fin (1 / a) else NonFinite),
      lambertw = (\<lambda>x. x),
      conductivity = (\<lambda>T rho. 2),
      heat_capacity = (\<lambda>T. 2000),
      glob_H = Hg\<rparr>"

definition sample_rate_factor :: "real \<Rightarrow> constants \<Rightarrow> real" where
  "sample_rate_factor T c = 1"

definition sample_const :: constants where
  "sample_const =
     \<lparr>c_k = 2, c_rho = 900, c_Cp = 2000, c_L = 330000, c_g = 10, c_n = 3, c_spy = 31556926\<rparr>"

definition sample_model :: "real \<Rightarrow> real \<Rightarrow> model" where
  \<comment> \<open>a three-point grid from the bed to the surface of a column 1000 m thick, with
      accumulation rate \<open>adot\<close> and geothermal flux \<open>qgeo\<close>\<close>
  "sample_model adot qgeo =
     \<lparr>m_z = [0, 500, 1000], m_Ts = - 30, m_H = 1000, m_adot = adot, m_qgeo = qgeo,
      m_pmp = [- 1, - 1 / 2, 0], m_eps_xy = 0\<rparr>"

section \<open>Arithmetic of finite values\<close>

lemma fl_plus [simp]: "Fin x + Fin y = Fin (x + y)" "NonFinite + b = NonFinite" "a + NonFinite = NonFinite"
  by (simp_all add: plus_fl_def split: fl.splits)

lemma fl_minus [simp]: "Fin x - Fin y = Fin (x - y)" "NonFinite - b = NonFinite" "a - NonFinite = NonFinite"
  by (simp_all add: minus_fl_def split: fl.splits)

lemma fl_times [simp]: "Fin x * Fin y = Fin (x * y)" "NonFinite * b = NonFinite" "a * NonFinite = NonFinite"
  by (simp_all add: times_fl_def split: fl.splits)

lemma fl_uminus [simp]: "- Fin x = Fin (- x)" "- NonFinite = NonFinite"
  by (simp_all add: uminus_fl_def)

lemma fl_divide [simp]:
  "Fin x / Fin y = (if y = 0 then NonFinite else Fin (x / y))"
  "NonFinite / b = NonFinite" "a / NonFinite = NonFinite"
  by (simp_all add: divide_fl_def split: fl.splits)

lemma fsqrt_simps [simp]:
  "fsqrt (Fin x) = (if x < 0 then NonFinite else Fin (sqrt x))" "fsqrt NonFinite = NonFinite"
  by (simp_all add: fsqrt_def)

lemma fexp_simps [simp]: "fexp (Fin x) = Fin (exp x)" "fexp NonFinite = NonFinite"
  by (simp_all add: fexp_def)

lemma flog_simps [simp]:
  "flog (Fin x) = (if x \<le> 0 then NonFinite else Fin (ln x))" "flog NonFinite = NonFinite"
  by (simp_all add: flog_def)

lemma fabs_simps [simp]: "fabs (Fin x) = Fin \<bar>x\<bar>" "fabs NonFinite = NonFinite"
  by (simp_all add: fabs_def)

lemma fpow_simps [simp]:
  "fpow (Fin x) (Fin y) = rpow x y" "fpow NonFinite b = NonFinite" "fpow a NonFinite = NonFinite"
  by (simp_all add: fpow_def split: fl.splits)

lemma fgt_simps [simp]:
  "fgt (Fin x) (Fin y) = (y < x)" "fgt NonFinite b = False" "fgt a NonFinite = False"
  by (simp_all add: fgt_def split: fl.splits)

lemma flt_simps [simp]:
  "flt (Fin x) (Fin y) = (x < y)" "flt NonFinite b = False" "flt a NonFinite = False"
  by (simp_all add: flt_def split: fl.splits)

lemma lift1_simps [simp]: "lift1 f (Fin x) = Fin (f x)" "lift1 f NonFinite = NonFinite"
  by (simp_all add: lift1_def)

lemma lift0_simps [simp]: "lift0 g (Fin x) = g x" "lift0 g NonFinite = NonFinite"
  by (simp_all add: lift0_def)

lemma lift2_simps [simp]:
  "lift2 h (Fin x) (Fin y) = h x y" "lift2 h NonFinite b = NonFinite" "lift2 h a NonFinite = NonFinite"
  by (simp_all add: lift2_def split: fl.splits)

lemma rpow_two [simp]: "rpow x 2 = Fin (x\<^sup>2)"
proof -
  have i: "is_integral 2" by (simp add: is_integral_def)
  have "\<bar>x\<bar> powr 2 = x\<^sup>2" if "x \<noteq> 0" using that by (simp add: powr_numeral)
  then show ?thesis using i by (auto simp add: rpow_def powr_numeral)
qed

lemma rpow_minus_one [simp]: "rpow x (- 1) = (if x = 0 then NonFinite else Fin (1 / x))"
proof -
  have f: "\<lfloor>- 1::real\<rfloor> = - 1" by (simp add: floor_eq_iff)
  have i: "is_integral (- 1)" by (simp add: is_integral_def f)
  have o: "\<not> even \<lfloor>- 1::real\<rfloor>" using f by simp
  have "\<bar>x\<bar> powr (- 1) = 1 / \<bar>x\<bar>" by (simp add: powr_minus_divide)
  then show ?thesis using i o by (auto simp add: rpow_def powr_minus_divide)
qed

section \<open>Profiles as maps over the depth grid\<close>

lemma robin_profile_eq:
  "m_z m \<noteq> [] \<Longrightarrow> robin_profile e m q2 Tb = Inr (map (robin_point e m q2 Tb) (m_z m))"
  by (simp add: robin_profile_def robin_point_def Let_def last_map)

lemma robin_profile_empty: "m_z m = [] \<Longrightarrow> robin_profile e m q2 Tb = Inl IndexError"
  by (simp add: robin_profile_def)

lemma Robin_T_alt:
  "Robin_T e m c melt =
     (case robin_profile e m (robin_q2 m c) (- Fin (m_qgeo m) / Fin (c_k c)) of
        Inl err \<Rightarrow> Inl err
      | Inr T \<Rightarrow>
          if melt then
            (case T of
               [] \<Rightarrow> Inl IndexError
             | T0 # _ \<Rightarrow>
                 (case m_pmp m of
                    [] \<Rightarrow> Inl IndexError
                  | pmp0 # _ \<Rightarrow>
                      if fgt T0 (Fin pmp0)
                      then robin_profile e m (robin_q2 m c)
                             (robin_melt_grad e m (diffusivity c) (robin_q2 m c) pmp0)
                      else Inr T))
          else Inr T)"
  by (simp only: Robin_T_def robin_q2_def diffusivity_def Let_def)

lemma foldl_update_range:
  "n \<le> length T \<Longrightarrow> foldl (\<lambda>T i. T[i := f i]) T [0..<n] = map f [0..<n] @ drop n T"
proof (induction n)
  case 0
  then show ?case by simp
next
  case (Suc n)
  then have n: "n < length T" by simp
  have "foldl (\<lambda>T i. T[i := f i]) T [0..<Suc n] = (map f [0..<n] @ drop n T)[n := f n]"
    using Suc by simp
  also have "\<dots> = map f [0..<n] @ (drop n T)[0 := f n]"
    by (simp add: list_update_append)
  also have "(drop n T)[0 := f n] = f n # drop (Suc n) T"
    using n by (simp add: Cons_nth_drop_Suc [symmetric])
  finally show ?case by simp
qed

lemma perol_loop_eq:
  assumes "length T = length (m_z m)"
  shows "perol_loop e m k Pe S pmp0 T = map (perol_point e m k Pe S pmp0) (m_z m)"
proof -
  have "perol_loop e m k Pe S pmp0 T
      = map (\<lambda>i. perol_point e m k Pe S pmp0 (m_z m ! i)) [0..<length (m_z m)]"
    unfolding perol_loop_def using assms by (simp add: foldl_update_range)
  also have "\<dots> = map (perol_point e m k Pe S pmp0) (map (\<lambda>i. m_z m ! i) [0..<length (m_z m)])"
    by simp
  also have "map (\<lambda>i. m_z m ! i) [0..<length (m_z m)] = m_z m"
    by (rule map_nth)
  finally show ?thesis .
qed

lemma clamp_temperate_map:
  "clamp_temperate Hd hbar zs (map f zs)
     = map (\<lambda>zi. if flt (Fin zi / Fin Hd) hbar then Fin 0 else f zi) zs"
  by (induction zs) (simp_all add: clamp_temperate_def)

section \<open>Evaluating the sample inputs\<close>

lemma robin_f_zero: "robin_f (Fin 0) = (\<lambda>z. Fin 1)"
  by (rule ext) (simp add: robin_f_def)

lemma sample_first_pass:
  "Robin_T (sample_env None) (sample_model 0 (1 / 20)) sample_const False
     = Inr [Fin (- 5), Fin (- 35 / 2), Fin (- 30)]"
  by (simp add: Robin_T_def robin_profile_def sample_env_def sample_model_def sample_const_def
        robin_f_zero Let_def)

section \<open>The Rezvan solver: exponent fit, driving stress and strain heating\<close>

text \<open>
  C10. With \<^verbatim>\<open>gamma_plus\<close> true the result of \<^verbatim>\<open>Rezvan_T\<close> does not depend on the argument
  \<^verbatim>\<open>gamma\<close>: two calls that differ only in \<^verbatim>\<open>gamma\<close> return the same profile (or fail in
  the same way), because line 113 overwrites \<^verbatim>\<open>gamma\<close> by the regression
  \<open>1.39 + 0.044 ln Pe\<close> before its first use.
\<close>

theorem Rezvan_T_gamma_plus_ignores_gamma:
  "Rezvan_T e m c rate_factor T_ratefactor dHdx tau_dx gamma1 True
     = Rezvan_T e m c rate_factor T_ratefactor dHdx tau_dx gamma2 True"
  by (simp add: Rezvan_T_def rezvan_gamma_def)

text \<open>
  C2. The claim is that a nonzero driving stress adds the strain-heating term
  \<open>(2/5) A H tau_dx^4\<close> to the geothermal flux used in the final expression. The code
  assigns the sum to the local \<^verbatim>\<open>qgeo\<close> (line 122) and then evaluates line 131 with
  \<^verbatim>\<open>m.qgeo\<close>: whatever the driving stress, given or derived from the slope, a call that
  gets past line 116 returns what the call with neither slope nor stress returns.
\<close>

theorem Rezvan_T_ignores_driving_stress:
  "Rezvan_T e m c rate_factor T_ratefactor dHdx tau_dx gamma gamma_plus
     = (case rezvan_tau e c dHdx tau_dx of
          Inl err \<Rightarrow> Inl err
        | Inr tau \<Rightarrow> Rezvan_T e m c rate_factor T_ratefactor 0 0 gamma gamma_plus)"
  by (simp add: Rezvan_T_def rezvan_tau_def Let_def split: sum.split)

text \<open>
  C7. The claim is that a call with a nonzero surface slope and no explicit driving stress
  computes the stress from the profile's thickness and returns a profile. Line 116 reads
  the name \<^verbatim>\<open>H\<close>, not \<^verbatim>\<open>m.H\<close>: where the module binds no such name the call fails with
  NameError.
\<close>

theorem Rezvan_T_slope_NameError:
  "dHdx \<noteq> 0 \<Longrightarrow> glob_H e = None \<Longrightarrow>
     Rezvan_T e m c rate_factor T_ratefactor dHdx 0 gamma gamma_plus = Inl NameError"
  by (simp add: Rezvan_T_def rezvan_tau_def Let_def)

theorem Rezvan_T_slope_NameError_witness:
  "(1 / 100 :: real) \<noteq> 0 \<and> glob_H (sample_env None) = None \<and>
   Rezvan_T (sample_env None) (sample_model (1 / 10) (1 / 20)) sample_const sample_rate_factor
     (- 10) (1 / 100) 0 1.397 True = Inl NameError"
  using Rezvan_T_slope_NameError [of "1 / 100" "sample_env None"
      "sample_model (1 / 10) (1 / 20)" sample_const sample_rate_factor "- 10" "1.397" True]
  by (simp add: sample_env_def)

section \<open>The Robin solver: the melt flag\<close>

lemma robin_profile_nonempty: "robin_profile e m q2 g = Inr T \<Longrightarrow> T \<noteq> []"
  by (auto simp add: robin_profile_def Let_def split: if_splits)

lemma Robin_T_no_melt:
  "Robin_T e m c False = robin_profile e m (robin_q2 m c) (- Fin (m_qgeo m) / Fin (c_k c))"
  by (simp add: Robin_T_def robin_q2_def diffusivity_def Let_def split: sum.split)

text \<open>
  C9. The first pass of \<^verbatim>\<open>Robin_T\<close> is what the call with \<^verbatim>\<open>melt=False\<close> returns. When
  its basal-most temperature does not exceed the basal pressure-melting point \<^verbatim>\<open>m.pmp[0]\<close>,
  the call with \<^verbatim>\<open>melt=True\<close> returns exactly the same array.
\<close>

theorem Robin_T_melt_flag_without_exceedance:
  assumes "Robin_T e m c False = Inr T" and "m_pmp m \<noteq> []"
    and "\<not> fgt (hd T) (Fin (hd (m_pmp m)))"
  shows "Robin_T e m c True = Inr T"
proof -
  let ?g = "- Fin (m_qgeo m) / Fin (c_k c)"
  from assms(1) have p: "robin_profile e m (robin_q2 m c) ?g = Inr T"
    by (simp add: Robin_T_no_melt)
  then have "T \<noteq> []" by (rule robin_profile_nonempty)
  then obtain T0 Ts where T: "T = T0 # Ts" by (cases T) simp_all
  from assms(2) obtain p0 ps where P: "m_pmp m = p0 # ps" by (cases "m_pmp m") simp_all
  from assms(3) T P have "\<not> fgt T0 (Fin p0)" by simp
  then show ?thesis
    using p by (simp add: Robin_T_def Let_def robin_q2_def diffusivity_def T P)
qed

theorem Robin_T_melt_flag_without_exceedance_witness:
  "Robin_T (sample_env None) (sample_model 0 (1 / 20)) sample_const False
     = Inr [Fin (- 5), Fin (- 35 / 2), Fin (- 30)]
   \<and> m_pmp (sample_model 0 (1 / 20)) \<noteq> []
   \<and> \<not> fgt (hd [Fin (- 5), Fin (- 35 / 2), Fin (- 30)])
          (Fin (hd (m_pmp (sample_model 0 (1 / 20)))))
   \<and> Robin_T (sample_env None) (sample_model 0 (1 / 20)) sample_const True
     = Inr [Fin (- 5), Fin (- 35 / 2), Fin (- 30)]"
  using Robin_T_melt_flag_without_exceedance [OF sample_first_pass] sample_first_pass
  by (simp add: sample_model_def)

section \<open>Calls that return on the sample inputs\<close>

lemma sample_Rezvan_returns:
  "\<exists>T. Rezvan_T (sample_env None) (sample_model (1 / 10) (1 / 20)) sample_const
          sample_rate_factor (- 10) 0 0 1.397 True = Inr T"
  by (simp add: Rezvan_T_def rezvan_tau_def Let_def)

lemma sample_Meyer_returns:
  "\<exists>T. Meyer_T (sample_env None) (sample_model (1 / 10) (1 / 20)) sample_const
          sample_rate_factor None 0 0 = Inr T"
  by (simp add: Meyer_T_def bulk_temperature_def meyer_Pe_def sample_model_def sample_env_def
        sample_const_def Let_def)

lemma sample_Perol_returns:
  "\<exists>T. Perol_T (sample_env None) (sample_model (1 / 10) (1 / 20)) sample_const
          sample_rate_factor None = Inr T"
  by (simp add: Perol_T_def bulk_temperature_def sample_model_def Let_def)

section \<open>The Meyer solver: the clamp of the temperate region\<close>

lemma nth_clamp_temperate:
  "i < length zs \<Longrightarrow>
   clamp_temperate Hd hbar zs (map f zs) ! i
     = (if flt (Fin (zs ! i) / Fin Hd) hbar then Fin 0 else f (zs ! i))"
  by (simp add: clamp_temperate_map)

text \<open>
  In the advection-diffusion branch (line 208) the mask is \<^verbatim>\<open>m.z/m.H < hbar\<close>: every depth
  whose fraction of the thickness is below \<^verbatim>\<open>hbar\<close> holds exactly 0.
\<close>

lemma Meyer_T_advection_clamps:
  assumes "Meyer_T e m c rate_factor T_bulk Tb lam = Inr T"
    and "bulk_temperature m T_bulk = Inr Tbulk"
    and "\<not> meyer_small_Pe e m c Tbulk"
    and "i < length (m_z m)"
    and "flt (Fin (m_z m ! i) / Fin (m_H m)) (meyer_hbar e m c rate_factor Tbulk Tb lam)"
  shows "T ! i = Fin 0"
proof -
  define hbar where "hbar = meyer_hbar e m c rate_factor Tbulk Tb lam"
  from assms(1,2,3) have "\<exists>f. T = clamp_temperate (m_H m) hbar (m_z m) (map f (m_z m))"
    unfolding hbar_def
    by (auto simp add: Meyer_T_def meyer_hbar_def meyer_small_Pe_def Let_def)
  then obtain f where "T = clamp_temperate (m_H m) hbar (m_z m) (map f (m_z m))" ..
  then show ?thesis using assms(4,5) unfolding hbar_def [symmetric]
    by (simp only: nth_clamp_temperate if_True)
qed

text \<open>
  C3. The claim is that both branches of \<^verbatim>\<open>Meyer_T\<close> set every depth with \<open>z/H < hbar\<close> to
  exactly 0. The diffusion-only branch (line 195) builds its mask from \<^verbatim>\<open>m.z/H\<close> with the
  name \<^verbatim>\<open>H\<close>, not \<^verbatim>\<open>m.H\<close>: where the module binds no such name, every call that takes this
  branch fails with NameError after computing the unclamped profile.
\<close>

theorem Meyer_T_diffusion_NameError:
  assumes "bulk_temperature m T_bulk = Inr Tbulk"
    and "meyer_small_Pe e m c Tbulk"
    and "glob_H e = None"
  shows "Meyer_T e m c rate_factor T_bulk Tb lam = Inl NameError"
  using assms by (simp add: Meyer_T_def meyer_small_Pe_def Let_def)

theorem Meyer_T_diffusion_NameError_witness:
  "bulk_temperature (sample_model 0 (1 / 20)) None = Inr (- 31 / 2)
   \<and> meyer_small_Pe (sample_env None) (sample_model 0 (1 / 20)) sample_const (- 31 / 2)
   \<and> glob_H (sample_env None) = None
   \<and> Meyer_T (sample_env None) (sample_model 0 (1 / 20)) sample_const sample_rate_factor None 0 0
       = Inl NameError"
proof -
  have b: "bulk_temperature (sample_model 0 (1 / 20)) None = Inr (- 31 / 2)"
    by (simp add: bulk_temperature_def sample_model_def)
  have p: "meyer_small_Pe (sample_env None) (sample_model 0 (1 / 20)) sample_const (- 31 / 2)"
    by (simp add: meyer_small_Pe_def meyer_Pe_def sample_model_def sample_env_def
          sample_const_def)
  have h: "glob_H (sample_env None) = None" by (simp add: sample_env_def)
  from Meyer_T_diffusion_NameError [OF b p h] b p h show ?thesis by blast
qed

section \<open>The Perol solver: boundary values and zero accumulation\<close>

lemma rpow_pos: "0 < x \<Longrightarrow> rpow x y = Fin (x powr y)"
  by (simp add: rpow_def)

lemma rpow_nonneg_finite:
  assumes "0 \<le> x" "0 < y"
  shows "\<exists>r. rpow x y = Fin r"
proof (cases "x = 0")
  case True
  with assms(2) show ?thesis by (simp add: rpow_def)
next
  case False
  with assms(1) have "0 < x" by simp
  then show ?thesis by (simp add: rpow_pos)
qed

lemma perol_S_finite:
  assumes "0 < A" "0 \<le> m_eps_xy m" "0 < c_n c"
  shows "\<exists>s. perol_S m c A = Fin s"
proof -
  have "0 < (c_n c + 1) / c_n c" and "0 \<le> m_eps_xy m / 2" using assms(2,3) by simp_all
  then obtain r where r: "rpow (m_eps_xy m / 2) ((c_n c + 1) / c_n c) = Fin r"
    using rpow_nonneg_finite by blast
  show ?thesis using assms(1,3) r by (simp add: perol_S_def rpow_pos)
qed

lemma perol_Pe_positive:
  assumes "0 < m_adot m" "0 < m_H m" "0 < c_rho c" "0 < k" "0 < Cp"
  shows "\<exists>p. perol_Pe m c k Cp = Fin p \<and> 0 < p"
  using assms by (simp add: perol_Pe_def)

lemma perol_f1_bed:
  assumes "m_H m \<noteq> 0" "0 < x" "x < 1"
  shows "perol_f1 m (Fin p) 0 x = Fin 0"
  using assms by (simp add: perol_f1_def)

lemma perol_f1_surface:
  assumes "m_H m \<noteq> 0"
  shows "perol_f1 m (Fin p) (m_H m) = perol_f2 (Fin p)"
  using assms by (intro ext) (simp add: perol_f1_def perol_f2_def)

lemma perol_point_bed:
  assumes "0 < m_H m" "0 < k" "0 < p" "erf e 0 = 0" "0 < erf e (sqrt (p / 2))"
    and "quad_interior e" and "quad e (perol_f2 (Fin p)) 0 1 = Fin v"
  shows "perol_point e m k (Fin p) (Fin s) pmp0 0 = Fin pmp0"
proof -
  have "quad e (perol_f1 m (Fin p) 0) 0 1 = Fin 0"
    using assms(6) assms(1) unfolding quad_interior_def
    by (simp add: perol_f1_bed)
  then show ?thesis using assms(1-5,7)
    by (simp add: perol_point_def)
qed

lemma perol_point_surface:
  assumes "0 < m_H m" "0 < k" "0 < p" "0 < erf e (sqrt (p / 2))"
    and "quad e (perol_f2 (Fin p)) 0 1 = Fin v"
  shows "perol_point e m k (Fin p) (Fin s) pmp0 (m_H m) = Fin (m_Ts m)"
proof -
  have "perol_f1 m (Fin p) (m_H m) = perol_f2 (Fin p)"
    using assms(1) by (simp add: perol_f1_surface)
  then show ?thesis using assms
    by (simp add: perol_point_def)
qed

lemma Perol_T_value:
  assumes "bulk_temperature m T_bulk = Inr Tbulk" and "m_pmp m = pmp0 # ps"
  shows "Perol_T e m c rate_factor T_bulk
         = Inr (map (perol_point e m (conductivity e Tbulk (c_rho c))
                       (perol_Pe m c (conductivity e Tbulk (c_rho c)) (heat_capacity e Tbulk))
                       (perol_S m c (rate_factor Tbulk c)) pmp0) (m_z m))"
  using assms by (simp add: Perol_T_def Let_def perol_loop_eq)

text \<open>
  C5. For a physically valid input (positive accumulation rate, thickness, density,
  conductivity, heat capacity, rate factor and flow-law exponent, non-negative strain rate),
  with \<open>erf 0 = 0\<close>, \<open>erf\<close> positive on positive arguments and a quadrature that returns a
  finite value, the profile of \<^verbatim>\<open>Perol_T\<close> equals the basal pressure-melting point
  \<^verbatim>\<open>m.pmp[0]\<close> at every grid point with \<open>z = 0\<close> and the surface temperature \<^verbatim>\<open>m.Ts\<close> at
  every grid point with \<open>z = H\<close>. In arithmetic without rounding the two equalities are
  exact.
\<close>

theorem Perol_T_boundary_values:
  assumes ret: "Perol_T e m c rate_factor T_bulk = Inr T"
    and bulk: "bulk_temperature m T_bulk = Inr Tbulk"
    and pmp: "m_pmp m = pmp0 # ps"
    and adot: "0 < m_adot m" and H: "0 < m_H m"
    and mat: "0 < c_rho c" "0 < conductivity e Tbulk (c_rho c)" "0 < heat_capacity e Tbulk"
    and heat: "0 < rate_factor Tbulk c" "0 \<le> m_eps_xy m" "0 < c_n c"
    and erf0: "erf e 0 = 0" and erfp: "\<forall>x. 0 < x \<longrightarrow> 0 < erf e x"
    and qi: "quad_interior e"
    and qf: "\<exists>v. quad e (perol_f2 (perol_Pe m c (conductivity e Tbulk (c_rho c))
                                   (heat_capacity e Tbulk))) 0 1 = Fin v"
    and i: "i < length (m_z m)"
  shows "(m_z m ! i = 0 \<longrightarrow> T ! i = Fin pmp0) \<and> (m_z m ! i = m_H m \<longrightarrow> T ! i = Fin (m_Ts m))"
proof -
  define k where "k = conductivity e Tbulk (c_rho c)"
  define Cp where "Cp = heat_capacity e Tbulk"
  obtain p where p: "perol_Pe m c k Cp = Fin p" "0 < p"
    using perol_Pe_positive [OF adot H mat(1)] mat(2,3) unfolding k_def Cp_def by blast
  obtain s where s: "perol_S m c (rate_factor Tbulk c) = Fin s"
    using perol_S_finite [OF heat] by blast
  obtain v where v: "quad e (perol_f2 (Fin p)) 0 1 = Fin v"
    using qf p(1) unfolding k_def Cp_def by auto
  have e: "0 < erf e (sqrt (p / 2))" using p(2) erfp by simp
  have kp: "0 < k" using mat(2) by (simp add: k_def)
  have T: "T = map (perol_point e m k (Fin p) (Fin s) pmp0) (m_z m)"
    using ret p(1) s unfolding Perol_T_value [OF bulk pmp] k_def Cp_def by simp
  have "T ! i = perol_point e m k (Fin p) (Fin s) pmp0 (m_z m ! i)"
    using i by (simp add: T)
  then show ?thesis
    using perol_point_bed [OF H kp p(2) erf0 e qi v, of s pmp0]
      perol_point_surface [OF H kp p(2) e v, of s pmp0]
    by simp
qed

lemma sample_erf_zero: "erf (sample_env Hg) 0 = 0"
  by (simp add: sample_env_def)

lemma sample_erf_pos: "\<forall>x. 0 < x \<longrightarrow> 0 < erf (sample_env Hg) x"
  by (simp add: sample_env_def)

lemma sample_quad_interior: "quad_interior (sample_env Hg)"
  by (simp add: quad_interior_def sample_env_def)

lemma sample_quad_f2: "0 < p \<Longrightarrow> \<exists>v. quad (sample_env Hg) (perol_f2 (Fin p)) 0 1 = Fin v"
  by (simp add: sample_env_def perol_f2_def)

lemma sample_bulk: "bulk_temperature (sample_model a q) None = Inr (- 31 / 2)"
  by (simp add: bulk_temperature_def sample_model_def)

theorem Perol_T_boundary_values_witness:
  "\<exists>T. Perol_T (sample_env None) (sample_model (1 / 10) (1 / 20)) sample_const
          sample_rate_factor None = Inr T
       \<and> m_z (sample_model (1 / 10) (1 / 20)) ! 0 = 0 \<and> T ! 0 = Fin (- 1)
       \<and> m_z (sample_model (1 / 10) (1 / 20)) ! 2 = m_H (sample_model (1 / 10) (1 / 20))
       \<and> T ! 2 = Fin (- 30)"
proof -
  let ?m = "sample_model (1 / 10) (1 / 20)"
  obtain T where T: "Perol_T (sample_env None) ?m sample_const sample_rate_factor None = Inr T"
    using sample_Perol_returns by blast
  have pmp: "m_pmp ?m = (- 1) # [- 1 / 2, 0]" by (simp add: sample_model_def)
  have a: "0 < m_adot ?m" "0 < m_H ?m" "0 \<le> m_eps_xy ?m" by (simp_all add: sample_model_def)
  have c: "0 < c_rho sample_const" "0 < c_n sample_const" by (simp_all add: sample_const_def)
  have k: "0 < conductivity (sample_env None) (- 31 / 2) (c_rho sample_const)"
    "0 < heat_capacity (sample_env None) (- 31 / 2)"
    by (simp_all add: sample_env_def)
  have r: "0 < sample_rate_factor (- 31 / 2) sample_const" by (simp add: sample_rate_factor_def)
  obtain p where p: "perol_Pe ?m sample_const (conductivity (sample_env None) (- 31 / 2) (c_rho sample_const))
      (heat_capacity (sample_env None) (- 31 / 2)) = Fin p" "0 < p"
    using perol_Pe_positive [OF a(1,2) c(1) k] by blast
  have q: "\<exists>v. quad (sample_env None) (perol_f2 (perol_Pe ?m sample_const
       (conductivity (sample_env None) (- 31 / 2) (c_rho sample_const))
       (heat_capacity (sample_env None) (- 31 / 2)))) 0 1 = Fin v"
    unfolding p(1) using p(2) by (rule sample_quad_f2)
  have l: "0 < length (m_z ?m)" "2 < length (m_z ?m)" by (simp_all add: sample_model_def)
  have z: "m_z ?m ! 0 = 0" "m_z ?m ! 2 = m_H ?m" "m_Ts ?m = - 30" by (simp_all add: sample_model_def)
  note bv = Perol_T_boundary_values [OF T sample_bulk pmp a(1,2) c(1) k r a(3) c(2)
      sample_erf_zero sample_erf_pos sample_quad_interior q]
  from bv [OF l(1)] bv [OF l(2)] z T show ?thesis by auto
qed

lemma perol_Pe_zero_accumulation:
  "m_adot m = 0 \<Longrightarrow> perol_Pe m c k Cp = Fin 0 \<or> perol_Pe m c k Cp = NonFinite"
  by (simp add: perol_Pe_def)

lemma perol_point_zero_Pe:
  assumes "erf e 0 = 0" and "Pe = Fin 0 \<or> Pe = NonFinite"
  shows "perol_point e m k Pe S pmp0 zi = NonFinite"
  using assms by (auto simp add: perol_point_def)

text \<open>
  C4. The claim is that with \<^verbatim>\<open>adot = 0\<close> the solver neither raises nor returns
  not-a-number values, but falls back to a linear interpolation. The code has no such
  branch. As amended: with \<^verbatim>\<open>adot = 0\<close>, \<open>erf 0 = 0\<close> and a non-empty \<^verbatim>\<open>m.pmp\<close>, the call
  raises nothing and evaluates the same expression as for a positive Peclet number, whose
  error-function ratio is then \<open>0/0\<close>: every entry of the returned profile is
  not-a-number.
\<close>

theorem Perol_T_zero_accumulation:
  assumes "m_adot m = 0" and "erf e 0 = 0"
    and "bulk_temperature m T_bulk = Inr Tbulk" and "m_pmp m = pmp0 # ps"
  shows "Perol_T e m c rate_factor T_bulk = Inr (replicate (length (m_z m)) NonFinite)"
proof -
  have "perol_point e m (conductivity e Tbulk (c_rho c))
          (perol_Pe m c (conductivity e Tbulk (c_rho c)) (heat_capacity e Tbulk))
          (perol_S m c (rate_factor Tbulk c)) pmp0
        = (\<lambda>zi. NonFinite)"
    by (intro ext perol_point_zero_Pe assms(2) perol_Pe_zero_accumulation assms(1))
  then show ?thesis
    unfolding Perol_T_value [OF assms(3,4)] by (simp add: map_replicate_const)
qed

theorem Perol_T_zero_accumulation_witness:
  "m_adot (sample_model 0 (1 / 20)) = 0 \<and> erf (sample_env None) 0 = 0
   \<and> bulk_temperature (sample_model 0 (1 / 20)) None = Inr (- 31 / 2)
   \<and> m_pmp (sample_model 0 (1 / 20)) = [- 1, - 1 / 2, 0]
   \<and> Perol_T (sample_env None) (sample_model 0 (1 / 20)) sample_const sample_rate_factor None
       = Inr (replicate (length (m_z (sample_model 0 (1 / 20)))) NonFinite)"
proof -
  have a: "m_adot (sample_model 0 (1 / 20)) = 0" by (simp add: sample_model_def)
  have p: "m_pmp (sample_model 0 (1 / 20)) = [- 1, - 1 / 2, 0]" by (simp add: sample_model_def)
  from Perol_T_zero_accumulation [OF a sample_erf_zero sample_bulk p] a sample_erf_zero
    sample_bulk p
  show ?thesis by blast
qed

text \<open>
  The sample column with \<^verbatim>\<open>adot = 0\<close>: the profile is not an interpolation between
  \<^verbatim>\<open>m.pmp[0] = -1\<close> and \<^verbatim>\<open>m.Ts = -30\<close>; its three entries are not-a-number.
\<close>

theorem Perol_T_zero_accumulation_not_a_number:
  "Perol_T (sample_env None) (sample_model 0 (1 / 20)) sample_const sample_rate_factor None
     = Inr [NonFinite, NonFinite, NonFinite]"
proof -
  let ?m = "sample_model 0 (1 / 20)"
  have a: "m_adot ?m = 0" by (simp add: sample_model_def)
  have p: "m_pmp ?m = [- 1, - 1 / 2, 0]" by (simp add: sample_model_def)
  have z: "m_z ?m = [0, 500, 1000]" by (simp add: sample_model_def)
  have "perol_point (sample_env None) ?m k (perol_Pe ?m sample_const k Cp) S (- 1) zi = NonFinite"
    for k Cp S zi
    by (intro perol_point_zero_Pe sample_erf_zero perol_Pe_zero_accumulation a)
  then show ?thesis
    unfolding Perol_T_value [OF sample_bulk p] by (simp add: z)
qed

section \<open>The Robin solver: small accumulation and the melt re-solve\<close>

lemma robin_f_Fin: "robin_f (Fin q) t = Fin (exp (- (t\<^sup>2) * q))"
  by (simp add: robin_f_def)

lemma robin_scalars:
  assumes "0 < c_k c" "0 < c_rho c" "0 < c_Cp c" "0 < m_H m"
  shows "diffusivity c = Fin (c_k c / (c_rho c * c_Cp c))"
    and "robin_q2 m c = Fin (m_adot m / (2 * (c_k c / (c_rho c * c_Cp c)) * m_H m))"
    and "- Fin (m_qgeo m) / Fin (c_k c) = Fin (- (m_qgeo m / c_k c))"
  using assms by (simp_all add: diffusivity_def robin_q2_def)

lemma robin_point_Fin:
  assumes "quad e (robin_f (Fin q)) 0 zi = Fin v"
    and "quad e (robin_f (Fin q)) 0 (last (m_z m)) = Fin w"
  shows "robin_point e m (Fin q) (Fin g) zi = Fin (g * v + (m_Ts m - g * w))"
  using assms by (simp add: robin_point_def)

lemma Robin_T_no_resolve:
  assumes "\<not> melt \<or> (\<exists>T0 Ts0 p ps. Robin_T e m c False = Inr (T0 # Ts0) \<and> m_pmp m = p # ps
                        \<and> \<not> fgt T0 (Fin p))"
  shows "Robin_T e m c melt = Robin_T e m c False"
proof (cases melt)
  case False
  then show ?thesis by simp
next
  case True
  with assms obtain T0 Ts0 p ps where
    f: "Robin_T e m c False = Inr (T0 # Ts0)" and p: "m_pmp m = p # ps" and n: "\<not> fgt T0 (Fin p)"
    by blast
  from f have "robin_profile e m (robin_q2 m c) (- Fin (m_qgeo m) / Fin (c_k c)) = Inr (T0 # Ts0)"
    by (simp only: Robin_T_no_melt)
  then have "Robin_T e m c True = Inr (T0 # Ts0)"
    using p n by (simp only: Robin_T_alt sum.case list.case if_True if_False)
  with f True show ?thesis by simp
qed

lemma robin_point_close:
  assumes acc: "quad_gauss_accurate e"
    and q0: "0 \<le> q" and zi0: "0 \<le> zi" and zs0: "0 \<le> last (m_z m)"
  shows "\<exists>t. robin_point e m (Fin q) (Fin (- G)) zi = Fin t
          \<and> \<bar>t - (m_Ts m + G * (last (m_z m) - zi))\<bar>
              \<le> \<bar>G\<bar> * q * (zi ^ 3 + (last (m_z m)) ^ 3) / 3"
proof -
  define zs where "zs = last (m_z m)"
  obtain w where w: "quad e (robin_f (Fin q)) 0 zs = Fin w" "\<bar>w - zs\<bar> \<le> q * zs ^ 3 / 3"
    using acc q0 zs0 unfolding quad_gauss_accurate_def zs_def by blast
  obtain v where v: "quad e (robin_f (Fin q)) 0 zi = Fin v" "\<bar>v - zi\<bar> \<le> q * zi ^ 3 / 3"
    using acc q0 zi0 unfolding quad_gauss_accurate_def by blast
  have val: "robin_point e m (Fin q) (Fin (- G)) zi = Fin (- G * v + (m_Ts m - - G * w))"
    using v(1) w(1) unfolding zs_def by (rule robin_point_Fin)
  have "- G * v + (m_Ts m - - G * w) - (m_Ts m + G * (zs - zi)) = G * (w - zs) - G * (v - zi)"
    by (simp add: algebra_simps)
  also have "\<bar>\<dots>\<bar> \<le> \<bar>G\<bar> * \<bar>w - zs\<bar> + \<bar>G\<bar> * \<bar>v - zi\<bar>"
    by (metis abs_mult abs_triangle_ineq4)
  also have "\<dots> \<le> \<bar>G\<bar> * (q * zs ^ 3 / 3) + \<bar>G\<bar> * (q * zi ^ 3 / 3)"
    using v(2) w(2) by (intro add_mono mult_left_mono) simp_all
  also have "\<dots> = \<bar>G\<bar> * q * (zi ^ 3 + zs ^ 3) / 3"
    by (simp add: algebra_simps)
  finally show ?thesis using val unfolding zs_def by blast
qed

lemma Robin_T_first_pass:
  assumes "0 < c_k c" "0 < c_rho c" "0 < c_Cp c" "0 < m_H m" "m_z m \<noteq> []"
  shows "Robin_T e m c False
         = Inr (map (robin_point e m
                       (Fin (m_adot m / (2 * (c_k c / (c_rho c * c_Cp c)) * m_H m)))
                       (Fin (- (m_qgeo m / c_k c)))) (m_z m))"
  unfolding Robin_T_no_melt robin_scalars [OF assms(1-4)] robin_profile_eq [OF assms(5)] ..

text \<open>
  C6. The claim is that with zero accumulation rate the integrand raises no domain error
  and that, as \<^verbatim>\<open>adot\<close> tends to 0, the profile tends to the linear solution
  \<open>T(z) = Ts + qgeo/k * (H - z)\<close>. The integrand \<open>exp (- q2 z\<^sup>2)\<close> is defined everywhere, but
  the profile is the linear one only while the melt re-solve is not triggered. As amended:
  for \<^verbatim>\<open>adot \<ge> 0\<close>, on a grid of non-negative depths, when melting is disabled or the
  basal-most temperature of the first pass does not exceed \<^verbatim>\<open>m.pmp[0]\<close>, \<^verbatim>\<open>Robin_T\<close> returns
  a finite profile whose distance from \<open>Ts + qgeo/k * (z\<^sub>s - z)\<close>, with \<open>z\<^sub>s\<close> the last grid
  point (the surface, \<open>z\<^sub>s = H\<close>), is at most \<open>\<bar>qgeo/k\<bar> * q2 * (z\<^sup>3 + z\<^sub>s\<^sup>3) / 3\<close> where
  \<open>q2 = adot / (2 alpha H)\<close>: the profile is exactly linear at \<^verbatim>\<open>adot = 0\<close> and tends to the
  linear one as \<^verbatim>\<open>adot\<close> tends to 0.
\<close>

theorem Robin_T_small_accumulation:
  assumes acc: "quad_gauss_accurate e"
    and adot: "0 \<le> m_adot m" and H: "0 < m_H m"
    and mat: "0 < c_k c" "0 < c_rho c" "0 < c_Cp c"
    and grid: "m_z m \<noteq> []" "\<forall>z\<in>set (m_z m). 0 \<le> z"
    and nomelt: "\<not> melt \<or> (\<exists>T0 Ts0 p ps. Robin_T e m c False = Inr (T0 # Ts0)
                     \<and> m_pmp m = p # ps \<and> \<not> fgt T0 (Fin p))"
  shows "\<exists>T. Robin_T e m c melt = Inr T \<and> length T = length (m_z m)
     \<and> (\<forall>i<length (m_z m). \<exists>t. T ! i = Fin t
          \<and> \<bar>t - (m_Ts m + m_qgeo m / c_k c * (last (m_z m) - m_z m ! i))\<bar>
              \<le> \<bar>m_qgeo m / c_k c\<bar>
                  * (m_adot m / (2 * (c_k c / (c_rho c * c_Cp c)) * m_H m))
                  * ((m_z m ! i) ^ 3 + (last (m_z m)) ^ 3) / 3)"
proof -
  define q where "q = m_adot m / (2 * (c_k c / (c_rho c * c_Cp c)) * m_H m)"
  define G where "G = m_qgeo m / c_k c"
  have q0: "0 \<le> q" using adot H mat by (simp add: q_def)
  have zs0: "0 \<le> last (m_z m)" using grid by simp
  have R: "Robin_T e m c melt = Inr (map (robin_point e m (Fin q) (Fin (- G))) (m_z m))"
    unfolding Robin_T_no_resolve [OF nomelt] Robin_T_first_pass [OF mat H grid(1)] q_def G_def ..
  have "\<exists>t. map (robin_point e m (Fin q) (Fin (- G))) (m_z m) ! i = Fin t
          \<and> \<bar>t - (m_Ts m + G * (last (m_z m) - m_z m ! i))\<bar>
              \<le> \<bar>G\<bar> * q * ((m_z m ! i) ^ 3 + (last (m_z m)) ^ 3) / 3"
    if i: "i < length (m_z m)" for i
  proof -
    have "0 \<le> m_z m ! i" using grid(2) i by simp
    from robin_point_close [OF acc q0 this zs0, of G] show ?thesis using i by simp
  qed
  then show ?thesis unfolding R q_def G_def by simp
qed

lemma one_minus_exp_le: "0 \<le> u \<Longrightarrow> 1 - exp (- u) \<le> (u::real)"
  using exp_ge_add_one_self [of "- u"] by simp

lemma sample_quad_gauss: "quad (sample_env Hg) (robin_f (Fin q)) 0 b = Fin (b * exp (- ((b / 2)\<^sup>2) * q))"
  by (simp add: sample_env_def robin_f_Fin)

lemma sample_quad_gauss_accurate: "quad_gauss_accurate (sample_env Hg)"
  unfolding quad_gauss_accurate_def
proof (intro allI impI)
  fix q b :: real
  assume a: "0 \<le> q \<and> 0 \<le> b"
  define u where "u = (b / 2)\<^sup>2 * q"
  have u0: "0 \<le> u" using a by (simp add: u_def)
  have "\<bar>b * exp (- u) - b\<bar> = b * (1 - exp (- u))"
  proof -
    have "b * exp (- u) - b = - (b * (1 - exp (- u)))" by (simp add: algebra_simps)
    moreover have "0 \<le> b * (1 - exp (- u))" using a u0 by simp
    ultimately show ?thesis by simp
  qed
  also have "\<dots> \<le> b * u" using a one_minus_exp_le [OF u0] by (intro mult_left_mono) simp_all
  also have "\<dots> = q * b ^ 3 / 4" by (simp add: u_def power2_eq_square power3_eq_cube)
  also have "\<dots> \<le> q * b ^ 3 / 3" using a by (simp add: divide_left_mono)
  finally have "\<bar>b * exp (- ((b / 2)\<^sup>2) * q) - b\<bar> \<le> q * b ^ 3 / 3" by (simp add: u_def)
  then show "\<exists>v. quad (sample_env Hg) (robin_f (Fin q)) 0 b = Fin v \<and> \<bar>v - b\<bar> \<le> q * b ^ 3 / 3"
    unfolding sample_quad_gauss by blast
qed

theorem Robin_T_small_accumulation_witness:
  "\<exists>T. Robin_T (sample_env None) (sample_model 0 (1 / 20)) sample_const True = Inr T
       \<and> length T = 3 \<and> (\<exists>t. T ! 0 = Fin t \<and> \<bar>t - (- 5)\<bar> \<le> 0)"
proof -
  let ?m = "sample_model 0 (1 / 20)"
  have a: "0 \<le> m_adot ?m" "0 < m_H ?m" "m_z ?m \<noteq> []" "\<forall>z\<in>set (m_z ?m). 0 \<le> z"
    by (simp_all add: sample_model_def)
  have c: "0 < c_k sample_const" "0 < c_rho sample_const" "0 < c_Cp sample_const"
    by (simp_all add: sample_const_def)
  have n: "\<not> True \<or> (\<exists>T0 Ts0 p ps. Robin_T (sample_env None) ?m sample_const False = Inr (T0 # Ts0)
             \<and> m_pmp ?m = p # ps \<and> \<not> fgt T0 (Fin p))"
    unfolding sample_first_pass by (simp add: sample_model_def)
  from Robin_T_small_accumulation [OF sample_quad_gauss_accurate a(1,2) c a(3,4) n]
  obtain T where T: "Robin_T (sample_env None) ?m sample_const True = Inr T"
    "length T = length (m_z ?m)"
    "\<forall>i<length (m_z ?m). \<exists>t. T ! i = Fin t
          \<and> \<bar>t - (m_Ts ?m + m_qgeo ?m / c_k sample_const * (last (m_z ?m) - m_z ?m ! i))\<bar>
              \<le> \<bar>m_qgeo ?m / c_k sample_const\<bar>
                  * (m_adot ?m / (2 * (c_k sample_const / (c_rho sample_const * c_Cp sample_const)) * m_H ?m))
                  * ((m_z ?m ! i) ^ 3 + (last (m_z ?m)) ^ 3) / 3"
    by blast
  from T(3) have "\<exists>t. T ! 0 = Fin t \<and> \<bar>t - (- 5)\<bar> \<le> 0"
    by (simp add: sample_model_def sample_const_def)
  with T(1,2) show ?thesis by (auto simp add: sample_model_def)
qed

text \<open>
  The limit itself, for the first pass: at every grid point the temperature tends to the
  linear one as the accumulation rate tends to 0 from above.
\<close>

lemma Robin_T_limit_zero_accumulation:
  assumes acc: "quad_gauss_accurate e"
    and H: "0 < m_H m" and mat: "0 < c_k c" "0 < c_rho c" "0 < c_Cp c"
    and grid: "m_z m \<noteq> []" "\<forall>z\<in>set (m_z m). 0 \<le> z"
    and i: "i < length (m_z m)" and eps: "0 < \<epsilon>"
  shows "\<exists>\<delta>>0. \<forall>a. 0 \<le> a \<and> a < \<delta> \<longrightarrow>
           (\<exists>T t. Robin_T e (m\<lparr>m_adot := a\<rparr>) c False = Inr T \<and> T ! i = Fin t
              \<and> \<bar>t - (m_Ts m + m_qgeo m / c_k c * (last (m_z m) - m_z m ! i))\<bar> < \<epsilon>)"
proof -
  define G where "G = m_qgeo m / c_k c"
  define K where "K = \<bar>G\<bar> * (1 / (2 * (c_k c / (c_rho c * c_Cp c)) * m_H m))
                        * ((m_z m ! i) ^ 3 + (last (m_z m)) ^ 3) / 3"
  have zi0: "0 \<le> m_z m ! i" using grid(2) i by simp
  have zs0: "0 \<le> last (m_z m)" using grid by simp
  have K0: "0 \<le> K" using H mat zi0 zs0 by (simp add: K_def)
  define \<delta> where "\<delta> = \<epsilon> / (K + 1)"
  have d0: "0 < \<delta>" using eps K0 by (simp add: \<delta>_def)
  have "\<exists>T t. Robin_T e (m\<lparr>m_adot := a\<rparr>) c False = Inr T \<and> T ! i = Fin t
          \<and> \<bar>t - (m_Ts m + G * (last (m_z m) - m_z m ! i))\<bar> < \<epsilon>"
    if a: "0 \<le> a \<and> a < \<delta>" for a
  proof -
    let ?m = "m\<lparr>m_adot := a\<rparr>"
    define q where "q = a / (2 * (c_k c / (c_rho c * c_Cp c)) * m_H m)"
    have q0: "0 \<le> q" using a H mat by (simp add: q_def)
    have R: "Robin_T e ?m c False = Inr (map (robin_point e ?m (Fin q) (Fin (- G))) (m_z m))"
      using Robin_T_first_pass [of c ?m e] mat H grid(1) by (simp add: q_def G_def)
    from robin_point_close [OF acc q0, of "m_z m ! i" ?m G] zi0 zs0
    obtain t where t: "robin_point e ?m (Fin q) (Fin (- G)) (m_z m ! i) = Fin t"
      "\<bar>t - (m_Ts m + G * (last (m_z m) - m_z m ! i))\<bar>
         \<le> \<bar>G\<bar> * q * ((m_z m ! i) ^ 3 + (last (m_z m)) ^ 3) / 3"
      by auto
    have "\<bar>G\<bar> * q * ((m_z m ! i) ^ 3 + (last (m_z m)) ^ 3) / 3 = K * a"
      by (simp add: K_def q_def)
    also have "K * a \<le> K * \<delta>" using a K0 by (intro mult_left_mono) simp_all
    also have "K * \<delta> < (K + 1) * \<delta>" using d0 by simp
    also have "(K + 1) * \<delta> = \<epsilon>" using K0 by (simp add: \<delta>_def)
    finally have "\<bar>G\<bar> * q * ((m_z m ! i) ^ 3 + (last (m_z m)) ^ 3) / 3 < \<epsilon>" .
    with t(2) have "\<bar>t - (m_Ts m + G * (last (m_z m) - m_z m ! i))\<bar> < \<epsilon>" by simp
    with R t(1) i show ?thesis by auto
  qed
  with d0 show ?thesis unfolding G_def by blast
qed

text \<open>
  The sample column with \<^verbatim>\<open>adot = 0\<close> and a geothermal flux that puts the first-pass bed at
  20 degrees, above \<^verbatim>\<open>m.pmp[0] = -1\<close>: without melting the profile is the linear one; with
  melting allowed the re-solve multiplies \<open>sqrt q2 = 0\<close> by \<open>sqrt (erf 0) ** (-1)\<close>, and every
  entry of the returned profile is not-a-number.
\<close>

theorem Robin_T_zero_accumulation_melt:
  "Robin_T (sample_env None) (sample_model 0 (1 / 10)) sample_const False
     = Inr [Fin 20, Fin (- 5), Fin (- 30)]
   \<and> Robin_T (sample_env None) (sample_model 0 (1 / 10)) sample_const True
     = Inr [NonFinite, NonFinite, NonFinite]"
proof -
  have 1: "Robin_T (sample_env None) (sample_model 0 (1 / 10)) sample_const False
     = Inr [Fin 20, Fin (- 5), Fin (- 30)]"
    by (simp add: Robin_T_def robin_profile_def sample_env_def sample_model_def sample_const_def
        robin_f_zero Let_def)
  have 2: "Robin_T (sample_env None) (sample_model 0 (1 / 10)) sample_const True
     = Inr [NonFinite, NonFinite, NonFinite]"
    by (simp add: Robin_T_def robin_profile_def robin_melt_grad_def sample_env_def
        sample_model_def sample_const_def robin_f_zero Let_def)
  from 1 2 show ?thesis ..
qed

lemma robin_melt_grad_Fin:
  assumes "0 < q" "al \<noteq> 0" "0 < erf e (m_adot m * m_H m / (2 * al))"
  shows "robin_melt_grad e m (Fin al) (Fin q) pmp0
         = Fin (- 2 * sqrt q * (pmp0 - m_Ts m) / sqrt pi
                  * (1 / sqrt (erf e (m_adot m * m_H m / (2 * al)))))"
  using assms by (simp add: robin_melt_grad_def)

lemma Robin_T_resolve:
  assumes "Robin_T e m c False = Inr (T0 # Ts0)" and "m_pmp m = pmp0 # ps"
    and "fgt T0 (Fin pmp0)"
  shows "Robin_T e m c True
         = robin_profile e m (robin_q2 m c) (robin_melt_grad e m (diffusivity c) (robin_q2 m c) pmp0)"
proof -
  from assms(1)
  have "robin_profile e m (robin_q2 m c) (- Fin (m_qgeo m) / Fin (c_k c)) = Inr (T0 # Ts0)"
    by (simp only: Robin_T_no_melt)
  then show ?thesis
    using assms(2,3) by (simp only: Robin_T_alt sum.case list.case if_True)
qed

text \<open>
  The basal temperature after the melt re-solve, on a grid from \<open>z = 0\<close> to \<open>z = H\<close> and with a
  quadrature that is exact on the integrand: with \<open>x = adot H / (2 alpha)\<close> it is
  \<open>Ts + (pmp\<^sub>0 - Ts) * erf (sqrt x) / sqrt (erf x)\<close>. Line 57 divides by \<open>sqrt (erf x)\<close> where
  the constraint \<open>T(0) = pmp\<^sub>0\<close> requires \<open>erf (sqrt x)\<close>.
\<close>

lemma Robin_T_melt_basal:
  assumes qe: "quad_gauss_erf e" and e0: "erf e 0 = 0"
    and pos: "0 < m_adot m" "0 < m_H m" and mat: "0 < c_k c" "0 < c_rho c" "0 < c_Cp c"
    and grid: "m_z m = 0 # zs" "last (m_z m) = m_H m"
    and pmp: "m_pmp m = pmp0 # ps"
    and first: "Robin_T e m c False = Inr (T0 # Ts0)" and exc: "fgt T0 (Fin pmp0)"
    and x: "x = m_adot m * m_H m / (2 * (c_k c / (c_rho c * c_Cp c)))"
    and ex: "0 < erf e x"
  shows "\<exists>Ts'. Robin_T e m c True
           = Inr (Fin (m_Ts m + (pmp0 - m_Ts m) * (erf e (sqrt x) / sqrt (erf e x))) # Ts')"
proof -
  define al where "al = c_k c / (c_rho c * c_Cp c)"
  define q where "q = m_adot m / (2 * al * m_H m)"
  define g where "g = - 2 * sqrt q * (pmp0 - m_Ts m) / sqrt pi * (1 / sqrt (erf e x))"
  have al0: "0 < al" using mat by (simp add: al_def)
  have q0: "0 < q" using pos al0 by (simp add: q_def)
  have xq: "x = q * (m_H m)\<^sup>2" using pos al0 by (simp add: x q_def al_def power2_eq_square)
  have sx: "sqrt q * m_H m = sqrt x" using pos by (simp add: xq real_sqrt_mult)
  have al_ne: "al \<noteq> 0" using al0 by simp
  have xa: "m_adot m * m_H m / (2 * al) = x" by (simp add: x al_def)
  have ex': "0 < erf e (m_adot m * m_H m / (2 * al))" unfolding xa by (rule ex)
  have mg: "robin_melt_grad e m (Fin al) (Fin q) pmp0 = Fin g"
    using robin_melt_grad_Fin [OF q0 al_ne ex', of pmp0] unfolding xa g_def .
  have v0: "quad e (robin_f (Fin q)) 0 0 = Fin 0"
    using qe q0 e0 unfolding quad_gauss_erf_def by simp
  have w: "quad e (robin_f (Fin q)) 0 (last (m_z m)) = Fin (sqrt pi / (2 * sqrt q) * erf e (sqrt x))"
    using qe q0 unfolding quad_gauss_erf_def grid(2) by (simp add: sx)
  have z: "m_z m \<noteq> []" using grid(1) by simp
  have "Robin_T e m c True = Inr (map (robin_point e m (Fin q) (Fin g)) (m_z m))"
    unfolding Robin_T_resolve [OF first pmp exc] robin_scalars [OF mat pos(2)]
      al_def [symmetric] q_def [symmetric] mg robin_profile_eq [OF z] ..
  moreover have "robin_point e m (Fin q) (Fin g) 0
      = Fin (g * 0 + (m_Ts m - g * (sqrt pi / (2 * sqrt q) * erf e (sqrt x))))"
    using v0 w by (rule robin_point_Fin)
  moreover have "g * 0 + (m_Ts m - g * (sqrt pi / (2 * sqrt q) * erf e (sqrt x)))
      = m_Ts m + (pmp0 - m_Ts m) * (erf e (sqrt x) / sqrt (erf e x))"
    using q0 ex by (simp add: g_def field_simps)
  ultimately show ?thesis by (simp add: grid(1))
qed

text \<open>
  C1. The claim is that, when melting is allowed and the first pass exceeds the basal
  pressure-melting point, the basal temperature of the corrected profile equals that
  melting point. On the sample column with the accumulation rate for which
  \<open>adot H / (2 alpha) = 1\<close>, and any geothermal flux for which the first pass exceeds
  \<^verbatim>\<open>m.pmp[0] = -1\<close>, the corrected basal temperature is \<open>-30 + 29 * sqrt (erf 1)\<close>, which lies
  below \<open>-1\<close> for every \<open>erf\<close> with \<open>0 < erf 1 < 1\<close> (the error function has
  \<open>erf 1 = 0.8427\<close>, which gives \<open>-3.38\<close>).
\<close>

theorem Robin_T_melt_misses_melting_point:
  assumes qe: "quad_gauss_erf e" and e0: "erf e 0 = 0"
    and e1: "0 < erf e 1" "erf e 1 < 1"
    and first: "Robin_T e (sample_model (1 / 450000000) qgeo) sample_const False = Inr (T0 # Ts0)"
    and exc: "fgt T0 (Fin (- 1))"
  shows "\<exists>Ts'. Robin_T e (sample_model (1 / 450000000) qgeo) sample_const True
                 = Inr (Fin (- 30 + 29 * sqrt (erf e 1)) # Ts')
              \<and> - 30 + 29 * sqrt (erf e 1) < - 1"
proof -
  let ?m = "sample_model (1 / 450000000) qgeo"
  have pos: "0 < m_adot ?m" "0 < m_H ?m" by (simp_all add: sample_model_def)
  have mat: "0 < c_k sample_const" "0 < c_rho sample_const" "0 < c_Cp sample_const"
    by (simp_all add: sample_const_def)
  have grid: "m_z ?m = 0 # [500, 1000]" "last (m_z ?m) = m_H ?m" by (simp_all add: sample_model_def)
  have pmp: "m_pmp ?m = (- 1) # [- 1 / 2, 0]" by (simp add: sample_model_def)
  have x: "1 = m_adot ?m * m_H ?m / (2 * (c_k sample_const / (c_rho sample_const * c_Cp sample_const)))"
    by (simp add: sample_model_def sample_const_def)
  from Robin_T_melt_basal [OF qe e0 pos mat grid pmp first exc x e1(1)]
  obtain Ts' where "Robin_T e ?m sample_const True
      = Inr (Fin (m_Ts ?m + (- 1 - m_Ts ?m) * (erf e (sqrt 1) / sqrt (erf e 1))) # Ts')"
    by blast
  moreover have "erf e (sqrt 1) / sqrt (erf e 1) = sqrt (erf e 1)"
    using e1(1) by (simp add: real_div_sqrt)
  moreover have "m_Ts ?m = - 30" by (simp add: sample_model_def)
  moreover have "sqrt (erf e 1) < 1" using e1 by simp
  ultimately show ?thesis by auto
qed

lemma sample_quad_gauss_erf: "quad_gauss_erf (sample_env Hg)"
  unfolding quad_gauss_erf_def
proof (intro allI impI)
  fix q b :: real
  assume q: "0 < q"
  have "(sqrt q * b / 2)\<^sup>2 = (b / 2)\<^sup>2 * q" using q by (simp add: power2_eq_square)
  then have "sqrt pi / (2 * sqrt q) * erf (sample_env Hg) (sqrt q * b) = b * exp (- ((b / 2)\<^sup>2) * q)"
    using q by (simp add: sample_env_def)
  then show "quad (sample_env Hg) (robin_f (Fin q)) 0 b
      = Fin (sqrt pi / (2 * sqrt q) * erf (sample_env Hg) (sqrt q * b))"
    by (simp only: sample_quad_gauss)
qed

lemma exp_quarter_bounds: "3 / 4 \<le> exp (- (1 / 4) :: real)" "exp (- (1 / 4) :: real) \<le> 4 / 5"
proof -
  show "3 / 4 \<le> exp (- (1 / 4) :: real)"
    using exp_ge_add_one_self [of "- (1 / 4) :: real"] by simp
  have "5 / 4 \<le> exp (1 / 4 :: real)"
    using exp_ge_add_one_self [of "1 / 4 :: real"] by simp
  then have "inverse (exp (1 / 4 :: real)) \<le> inverse (5 / 4)"
    by (intro le_imp_inverse_le) simp_all
  then show "exp (- (1 / 4) :: real) \<le> 4 / 5" by (simp add: exp_minus)
qed

lemma sample_erf_one: "0 < erf (sample_env Hg) 1" "erf (sample_env Hg) 1 < 1"
proof -
  show "0 < erf (sample_env Hg) 1" by (simp add: sample_env_def)
  have "sin (pi / 6) \<le> pi / 6" by (rule sin_x_le_x) simp
  then have "3 \<le> pi" by (simp add: sin_30)
  then have "(8 / 5)\<^sup>2 < pi" by (simp add: power2_eq_square)
  then have "sqrt ((8 / 5)\<^sup>2) < sqrt pi" by (simp only: real_sqrt_less_iff)
  then have p: "8 / 5 < sqrt pi" by simp
  have "2 * exp (- (1 / 4) :: real) \<le> 8 / 5" using exp_quarter_bounds(2) by simp
  with p have "2 * exp (- (1 / 4) :: real) < sqrt pi" by simp
  then show "erf (sample_env Hg) 1 < 1"
    by (simp add: sample_env_def power2_eq_square field_simps)
qed

lemma sample_warm_first_pass:
  "Robin_T (sample_env None) (sample_model (1 / 450000000) (1 / 10)) sample_const False
     = Inr (Fin (- 30 + 50 * exp (- (1 / 4))) #
            map (robin_point (sample_env None) (sample_model (1 / 450000000) (1 / 10))
                   (Fin (1 / 1000000)) (Fin (- (1 / 20)))) [500, 1000])"
proof -
  let ?m = "sample_model (1 / 450000000) (1 / 10)"
  have mat: "0 < c_k sample_const" "0 < c_rho sample_const" "0 < c_Cp sample_const"
    by (simp_all add: sample_const_def)
  have H: "0 < m_H ?m" and z: "m_z ?m \<noteq> []" by (simp_all add: sample_model_def)
  have q: "m_adot ?m / (2 * (c_k sample_const / (c_rho sample_const * c_Cp sample_const)) * m_H ?m)
      = 1 / 1000000"
    by (simp add: sample_model_def sample_const_def)
  have g: "- (m_qgeo ?m / c_k sample_const) = - (1 / 20)"
    by (simp add: sample_model_def sample_const_def)
  have v: "quad (sample_env None) (robin_f (Fin (1 / 1000000))) 0 0 = Fin 0"
    by (simp add: sample_quad_gauss)
  have w: "quad (sample_env None) (robin_f (Fin (1 / 1000000))) 0 (last (m_z ?m))
      = Fin (1000 * exp (- (1 / 4)))"
    by (simp add: sample_quad_gauss sample_model_def power2_eq_square)
  have "robin_point (sample_env None) ?m (Fin (1 / 1000000)) (Fin (- (1 / 20))) 0
      = Fin (- 30 + 50 * exp (- (1 / 4)))"
    unfolding robin_point_Fin [OF v w] by (simp add: sample_model_def)
  moreover have "m_z ?m = 0 # [500, 1000]" by (simp add: sample_model_def)
  ultimately show ?thesis
    unfolding Robin_T_no_melt robin_scalars [OF mat H] q g robin_profile_eq [OF z] by simp
qed

theorem Robin_T_melt_misses_melting_point_witness:
  "\<exists>T0 Ts0 Ts'.
     quad_gauss_erf (sample_env None) \<and> erf (sample_env None) 0 = 0
     \<and> 0 < erf (sample_env None) 1 \<and> erf (sample_env None) 1 < 1
     \<and> Robin_T (sample_env None) (sample_model (1 / 450000000) (1 / 10)) sample_const False
         = Inr (T0 # Ts0)
     \<and> fgt T0 (Fin (- 1))
     \<and> Robin_T (sample_env None) (sample_model (1 / 450000000) (1 / 10)) sample_const True
         = Inr (Fin (- 30 + 29 * sqrt (erf (sample_env None) 1)) # Ts')
     \<and> - 30 + 29 * sqrt (erf (sample_env None) 1) < - 1"
proof -
  have exc: "fgt (Fin (- 30 + 50 * exp (- (1 / 4)))) (Fin (- 1))"
    using exp_quarter_bounds(1) by simp
  from Robin_T_melt_misses_melting_point [OF sample_quad_gauss_erf sample_erf_zero
      sample_erf_one sample_warm_first_pass exc]
    sample_quad_gauss_erf sample_erf_zero sample_erf_one sample_warm_first_pass exc
  show ?thesis by blast
qed

section \<open>Output length and alignment\<close>

lemma Robin_T_value:
  assumes z: "m_z m = z0 # zs"
  shows "Robin_T e m c melt =
     (if melt then
        (case m_pmp m of
           [] \<Rightarrow> Inl IndexError
         | pmp0 # _ \<Rightarrow>
             Inr (map (robin_point e m (robin_q2 m c)
                    (if fgt (robin_point e m (robin_q2 m c) (- Fin (m_qgeo m) / Fin (c_k c)) z0)
                          (Fin pmp0)
                     then robin_melt_grad e m (diffusivity c) (robin_q2 m c) pmp0
                     else - Fin (m_qgeo m) / Fin (c_k c))) (m_z m)))
      else Inr (map (robin_point e m (robin_q2 m c) (- Fin (m_qgeo m) / Fin (c_k c))) (m_z m)))"
proof -
  define g0 where "g0 = - Fin (m_qgeo m) / Fin (c_k c)"
  define q2 where "q2 = robin_q2 m c"
  have ne: "m_z m \<noteq> []" using z by simp
  note pe = robin_profile_eq [OF ne]
  show ?thesis
    unfolding Robin_T_alt pe g0_def [symmetric] q2_def [symmetric]
    by (simp add: z del: fl_divide split: list.split)
qed

lemma Robin_T_returns:
  assumes "Robin_T e m c melt = Inr T"
  shows "m_z m \<noteq> []" and "melt \<longrightarrow> m_pmp m \<noteq> []"
proof -
  show z: "m_z m \<noteq> []"
  proof
    assume "m_z m = []"
    then have "Robin_T e m c melt = Inl IndexError"
      by (simp only: Robin_T_alt robin_profile_empty sum.case)
    with assms show False by simp
  qed
  then obtain z0 zs where "m_z m = z0 # zs" by (cases "m_z m") simp_all
  from Robin_T_value [OF this, of e c melt] assms
  show "melt \<longrightarrow> m_pmp m \<noteq> []" by (auto split: if_splits)
qed

lemma Rezvan_T_value:
  assumes "Rezvan_T e m c rate_factor T_ratefactor dHdx tau_dx gamma gamma_plus = Inr T"
  shows "T = map (rezvan_point e m c (diffusivity c)
                    (rezvan_gamma m (diffusivity c) gamma gamma_plus)) (m_z m)"
  using assms
  by (auto simp add: Rezvan_T_def diffusivity_def Let_def simp del: fl_divide fl_times
        split: sum.splits)

lemma Meyer_T_value:
  assumes b: "bulk_temperature m T_bulk = Inr Tbulk"
  shows "Meyer_T e m c rate_factor T_bulk Tb lam =
     (if meyer_small_Pe e m c Tbulk then
        (case glob_H e of
           None \<Rightarrow> Inl NameError
         | Some Hg \<Rightarrow>
             Inr (map (\<lambda>zi. if flt (Fin zi / Fin Hg) (meyer_hbar e m c rate_factor Tbulk Tb lam)
                            then Fin 0
                            else meyer_unclamped e m c rate_factor Tbulk Tb lam zi) (m_z m)))
      else Inr (map (\<lambda>zi. if flt (Fin zi / Fin (m_H m)) (meyer_hbar e m c rate_factor Tbulk Tb lam)
                          then Fin 0
                          else meyer_unclamped e m c rate_factor Tbulk Tb lam zi) (m_z m)))"
  by (simp add: Meyer_T_def b meyer_small_Pe_def meyer_hbar_def meyer_unclamped_def Let_def
        clamp_temperate_map del: fl_divide fl_times split: option.split)

lemma Meyer_T_returns:
  assumes "Meyer_T e m c rate_factor T_bulk Tb lam = Inr T"
  shows "\<exists>Tbulk. bulk_temperature m T_bulk = Inr Tbulk"
  using assms by (cases "bulk_temperature m T_bulk") (simp_all add: Meyer_T_def)

lemma Perol_T_returns:
  assumes "Perol_T e m c rate_factor T_bulk = Inr T"
  shows "\<exists>Tbulk. bulk_temperature m T_bulk = Inr Tbulk" and "length T = length (m_z m)"
proof -
  show b: "\<exists>Tbulk. bulk_temperature m T_bulk = Inr Tbulk"
    using assms by (cases "bulk_temperature m T_bulk") (simp_all add: Perol_T_def)
  then obtain Tbulk where tb: "bulk_temperature m T_bulk = Inr Tbulk" ..
  show "length T = length (m_z m)"
  proof (cases "m_pmp m")
    case Nil
    with assms tb show ?thesis
      by (simp add: Perol_T_def Let_def split: if_splits)
  next
    case (Cons p ps)
    from assms show ?thesis unfolding Perol_T_value [OF tb Cons] by auto
  qed
qed

lemma sample_robin_point:
  "robin_point (sample_env None) (sample_model 0 (1 / 20))
     (robin_q2 (sample_model 0 (1 / 20)) sample_const)
     (- Fin (m_qgeo (sample_model 0 (1 / 20))) / Fin (c_k sample_const)) zi
   = Fin (- 5 - zi / 40)"
  by (simp add: robin_point_def robin_q2_def diffusivity_def sample_env_def sample_model_def
        sample_const_def robin_f_zero)

lemma sample_Robin_melt_returns:
  "\<exists>T. Robin_T (sample_env None) (sample_model 0 (1 / 20)) sample_const True = Inr T"
proof -
  have "m_z (sample_model 0 (1 / 20)) = 0 # [500, 1000]" by (simp add: sample_model_def)
  from Robin_T_value [OF this, of "sample_env None" sample_const True]
  show ?thesis by (simp add: sample_model_def del: fl_divide)
qed

lemma sample_rezvan_surface:
  "rezvan_point (sample_env None) (sample_model (1 / 10) (1 / 20)) sample_const
     (diffusivity sample_const)
     (rezvan_gamma (sample_model (1 / 10) (1 / 20)) (diffusivity sample_const) 1 False) 1000
   = Fin (- 30)"
  by (simp add: rezvan_point_def rezvan_Gamma_def rezvan_gamma_def diffusivity_def sample_env_def
        sample_model_def sample_const_def rpow_pos Let_def)

lemma sample_Rezvan_linear_returns:
  "\<exists>T. Rezvan_T (sample_env None) (sample_model (1 / 10) (1 / 20)) sample_const
          sample_rate_factor (- 10) 0 0 1 False = Inr T"
  by (simp add: Rezvan_T_def rezvan_tau_def Let_def)

lemma sample_meyer_large_Pe:
  "\<not> meyer_small_Pe (sample_env None) (sample_model (1 / 10) (1 / 20)) sample_const (- 31 / 2)"
  by (simp add: meyer_small_Pe_def meyer_Pe_def sample_env_def sample_model_def sample_const_def)

lemma fgt_zero_fpow: "\<not> fgt (Fin 0) (fpow a b * fpow a' b')" if "a = Fin x" "0 < x" "a' = Fin x'" "0 < x'"
  using that by (cases b; cases b') (simp_all add: rpow_pos mult_nonneg_nonneg not_less)

lemma sample_meyer_scalars:
  "meyer_S (sample_model (1 / 10) (1 / 20)) sample_const 1 = Fin 0"
  "meyer_Pe (sample_model (1 / 10) (1 / 20)) sample_const 2 2000 = Fin 90000000"
  "meyer_Br (sample_model (1 / 10) (1 / 20)) 2 30 (Fin 0) = Fin 0"
  "meyer_LAM (sample_model (1 / 10) (1 / 20)) 2 30 0 = Fin 0"
  by (simp_all add: meyer_S_def meyer_Pe_def meyer_Br_def meyer_LAM_def sample_model_def
        sample_const_def rpow_def)

lemma sample_meyer_hbar_adv:
  "meyer_hbar_adv (sample_env None) (sample_model (1 / 10) (1 / 20)) sample_const 2 30 1
     (Fin 0) (Fin 90000000) (Fin 0) = Fin 0"
proof -
  define d :: real where "d = 90000000 - 1 + exp (- 90000000)"
  have d: "0 < d" unfolding d_def by (simp add: add_pos_pos)
  have b: "(Fin 0.5 * fpow (Fin 90000000) (Fin 2)) / (Fin 90000000 - Fin 1 + fexp (- Fin 90000000))
              + Fin 0.5 * Fin 0 = Fin (0.5 * 90000000\<^sup>2 / d)"
    using d by (simp add: d_def)
  have b0: "0 < 0.5 * 90000000\<^sup>2 / d" using d by simp
  have c: "Fin 2 * Fin 30 / (fpow (Fin 1) (Fin (- 1) / Fin (c_n sample_const))
              * fpow (Fin (m_H (sample_model (1 / 10) (1 / 20)))) (Fin 2)) = Fin (60 / 1000000)"
    by (simp add: sample_const_def sample_model_def rpow_pos)
  have "\<not> fgt (Fin (m_eps_xy (sample_model (1 / 10) (1 / 20))))
          (fpow (Fin (0.5 * 90000000\<^sup>2 / d)) (Fin (c_n sample_const) / (Fin (c_n sample_const) + Fin 1))
            * fpow (Fin (60 / 1000000)) (Fin (c_n sample_const) / (Fin (c_n sample_const) + Fin 1)))"
  proof -
    have "m_eps_xy (sample_model (1 / 10) (1 / 20)) = 0" by (simp add: sample_model_def)
    then show ?thesis using fgt_zero_fpow [OF refl b0 refl, of "60 / 1000000"] by simp
  qed
  then show ?thesis
    unfolding meyer_hbar_adv_def meyer_crit_def Let_def b c by (simp only: if_False)
qed

lemma sample_collaborators:
  "conductivity (sample_env Hg) T rho = 2" "heat_capacity (sample_env Hg) T = 2000"
  "0 - m_Ts (sample_model a q) = 30"
  by (simp_all add: sample_env_def sample_model_def)

lemma sample_meyer_hbar:
  "meyer_hbar (sample_env None) (sample_model (1 / 10) (1 / 20)) sample_const sample_rate_factor
     (- 31 / 2) 0 0 = Fin 0"
  unfolding meyer_hbar_def Let_def sample_collaborators sample_meyer_scalars
    sample_rate_factor_def sample_meyer_hbar_adv
  by simp

lemma sample_meyer_unclamped:
  "meyer_unclamped (sample_env None) (sample_model (1 / 10) (1 / 20)) sample_const
     sample_rate_factor (- 31 / 2) 0 0 zi = Fin (- 30)"
  unfolding meyer_unclamped_def Let_def sample_collaborators sample_meyer_scalars
    sample_rate_factor_def sample_meyer_hbar_adv
  by (simp add: meyer_point_adv_def sample_model_def)

lemma sample_perol_ends:
  "perol_point (sample_env None) (sample_model (1 / 10) (1 / 20)) 2
     (perol_Pe (sample_model (1 / 10) (1 / 20)) sample_const 2 2000)
     (perol_S (sample_model (1 / 10) (1 / 20)) sample_const 1) (- 1) 0 = Fin (- 1)"
  "perol_point (sample_env None) (sample_model (1 / 10) (1 / 20)) 2
     (perol_Pe (sample_model (1 / 10) (1 / 20)) sample_const 2 2000)
     (perol_S (sample_model (1 / 10) (1 / 20)) sample_const 1) (- 1) 1000 = Fin (- 30)"
proof -
  let ?m = "sample_model (1 / 10) (1 / 20)"
  have a: "0 < m_adot ?m" "0 < m_H ?m" "0 \<le> m_eps_xy ?m" by (simp_all add: sample_model_def)
  have c: "0 < c_rho sample_const" "0 < c_n sample_const" by (simp_all add: sample_const_def)
  obtain p where p: "perol_Pe ?m sample_const 2 2000 = Fin p" "0 < p"
    using perol_Pe_positive [OF a(1,2) c(1), of 2 2000] by auto
  obtain s where s: "perol_S ?m sample_const 1 = Fin s"
    using perol_S_finite [OF _ a(3) c(2), of 1] by auto
  obtain v where v: "quad (sample_env None) (perol_f2 (Fin p)) 0 1 = Fin v"
    using sample_quad_f2 [OF p(2)] by blast
  have e: "0 < erf (sample_env None) (sqrt (p / 2))" using p(2) sample_erf_pos by simp
  have H: "m_H ?m = 1000" and Ts: "m_Ts ?m = - 30" by (simp_all add: sample_model_def)
  show "perol_point (sample_env None) ?m 2 (perol_Pe ?m sample_const 2 2000)
     (perol_S ?m sample_const 1) (- 1) 0 = Fin (- 1)"
    unfolding p(1) s
    by (rule perol_point_bed [OF a(2) _ p(2) sample_erf_zero e sample_quad_interior v]) simp
  show "perol_point (sample_env None) ?m 2 (perol_Pe ?m sample_const 2 2000)
     (perol_S ?m sample_const 1) (- 1) 1000 = Fin (- 30)"
    using perol_point_surface [OF a(2) _ p(2) e v, of 2 s "- 1"] unfolding p(1) s H Ts by simp
qed

lemma sample_meyer_still_scalars:
  "meyer_S (sample_model 0 (1 / 20)) sample_const 1 = Fin 0"
  "meyer_Pe (sample_model 0 (1 / 20)) sample_const 2 2000 = Fin 0"
  "meyer_Br (sample_model 0 (1 / 20)) 2 30 (Fin 0) = Fin 0"
  "meyer_LAM (sample_model 0 (1 / 20)) 2 30 0 = Fin 0"
  by (simp_all add: meyer_S_def meyer_Pe_def meyer_Br_def meyer_LAM_def sample_model_def
        sample_const_def rpow_def)

lemma sample_meyer_small_Pe:
  "meyer_small_Pe (sample_env Hg) (sample_model 0 (1 / 20)) sample_const (- 31 / 2)"
  by (simp add: meyer_small_Pe_def meyer_Pe_def sample_env_def sample_model_def sample_const_def)

lemma sample_meyer_hbar_diff:
  "meyer_hbar_diff (sample_model 0 (1 / 20)) sample_const 2 30 1 (Fin 0) = Fin 0"
proof -
  have "meyer_crit (sample_model 0 (1 / 20)) sample_const 2 30 1 = Fin ((60 / 1000000) powr (3 / 4))"
    by (simp add: meyer_crit_def sample_const_def sample_model_def rpow_pos)
  moreover have "m_eps_xy (sample_model 0 (1 / 20)) = 0" by (simp add: sample_model_def)
  ultimately show ?thesis by (simp add: meyer_hbar_diff_def not_less)
qed

lemma sample_meyer_still_hbar:
  "meyer_hbar (sample_env (Some 1000)) (sample_model 0 (1 / 20)) sample_const sample_rate_factor
     (- 31 / 2) 0 0 = Fin 0"
  unfolding meyer_hbar_def Let_def sample_collaborators sample_rate_factor_def
    sample_meyer_still_scalars sample_meyer_hbar_diff
  by simp

lemma sample_meyer_still_unclamped:
  "meyer_unclamped (sample_env (Some 1000)) (sample_model 0 (1 / 20)) sample_const
     sample_rate_factor (- 31 / 2) 0 0 zi = Fin (- 30)"
  unfolding meyer_unclamped_def Let_def sample_collaborators sample_rate_factor_def
    sample_meyer_still_scalars sample_meyer_hbar_diff
  by (simp add: meyer_point_diff_def sample_model_def)

lemma sample_Meyer_still_returns:
  "\<exists>T. Meyer_T (sample_env (Some 1000)) (sample_model 0 (1 / 20)) sample_const
          sample_rate_factor None 0 0 = Inr T"
  unfolding Meyer_T_value [OF sample_bulk]
  by (simp add: sample_meyer_small_Pe sample_env_def)

text \<open>
  C8. Whenever one of the four solvers returns, the returned array has the length of the
  depth grid \<^verbatim>\<open>m.z\<close> and is the image of the grid, in order, under the solver's function of
  one depth, so that its \<open>i\<close>-th entry is the temperature at the \<open>i\<close>-th depth. For
  \<^verbatim>\<open>Robin_T\<close> that function is \<open>robin_point\<close> with the basal gradient of the first pass, or
  of the re-solve when \<^verbatim>\<open>melt\<close> is true and the first entry of the first pass exceeds
  \<^verbatim>\<open>m.pmp[0]\<close>; a call that returns has a non-empty grid and, with \<^verbatim>\<open>melt\<close>, a non-empty
  \<^verbatim>\<open>m.pmp\<close>. For \<^verbatim>\<open>Rezvan_T\<close> it is \<open>rezvan_point\<close> with the diffusivity and the exponent of
  the call. For \<^verbatim>\<open>Meyer_T\<close> it is 0 where the depth fraction is below \<^verbatim>\<open>hbar\<close> and the
  expression of line 194 or 207 elsewhere, the fraction taken over \<^verbatim>\<open>m.H\<close> in the
  advection-diffusion branch and over the global \<^verbatim>\<open>H\<close> in the diffusion-only branch. For
  \<^verbatim>\<open>Perol_T\<close> it is \<open>perol_point\<close> with the conductivity, Peclet number and strain heating
  of the call.
\<close>

theorem solver_output_aligned:
  "(Robin_T e m c melt = Inr T1 \<longrightarrow>
      length T1 = length (m_z m) \<and> m_z m \<noteq> [] \<and> (melt \<longrightarrow> m_pmp m \<noteq> []))
   \<and> (Robin_T e m c melt = Inr T1 \<and> m_z m = z0 # zs \<and> (melt \<longrightarrow> m_pmp m = pmp0 # ps) \<longrightarrow>
      T1 = map (robin_point e m (robin_q2 m c)
                  (if melt \<and> fgt (robin_point e m (robin_q2 m c)
                                    (- Fin (m_qgeo m) / Fin (c_k c)) z0) (Fin pmp0)
                   then robin_melt_grad e m (diffusivity c) (robin_q2 m c) pmp0
                   else - Fin (m_qgeo m) / Fin (c_k c))) (m_z m))
   \<and> (Rezvan_T e m c rate_factor T_ratefactor dHdx tau_dx gamma gamma_plus = Inr T2 \<longrightarrow>
      length T2 = length (m_z m)
      \<and> T2 = map (rezvan_point e m c (diffusivity c)
                    (rezvan_gamma m (diffusivity c) gamma gamma_plus)) (m_z m))
   \<and> (Meyer_T e m c rate_factor T_bulk Tb lam = Inr T3 \<longrightarrow> length T3 = length (m_z m))
   \<and> (Meyer_T e m c rate_factor T_bulk Tb lam = Inr T3 \<and> bulk_temperature m T_bulk = Inr Tbulk
        \<and> \<not> meyer_small_Pe e m c Tbulk \<longrightarrow>
      T3 = map (\<lambda>zi. if flt (Fin zi / Fin (m_H m)) (meyer_hbar e m c rate_factor Tbulk Tb lam)
                     then Fin 0
                     else meyer_unclamped e m c rate_factor Tbulk Tb lam zi) (m_z m))
   \<and> (Meyer_T e m c rate_factor T_bulk Tb lam = Inr T3 \<and> bulk_temperature m T_bulk = Inr Tbulk
        \<and> meyer_small_Pe e m c Tbulk \<and> glob_H e = Some Hg \<longrightarrow>
      T3 = map (\<lambda>zi. if flt (Fin zi / Fin Hg) (meyer_hbar e m c rate_factor Tbulk Tb lam)
                     then Fin 0
                     else meyer_unclamped e m c rate_factor Tbulk Tb lam zi) (m_z m))
   \<and> (Perol_T e m c rate_factor T_bulk = Inr T4 \<longrightarrow> length T4 = length (m_z m))
   \<and> (Perol_T e m c rate_factor T_bulk = Inr T4 \<and> bulk_temperature m T_bulk = Inr Tbulk
        \<and> m_pmp m = pmp0 # ps \<longrightarrow>
      T4 = map (perol_point e m (conductivity e Tbulk (c_rho c))
                  (perol_Pe m c (conductivity e Tbulk (c_rho c)) (heat_capacity e Tbulk))
                  (perol_S m c (rate_factor Tbulk c)) pmp0) (m_z m))"
proof -
  have c1: "Robin_T e m c melt = Inr T1 \<longrightarrow>
      length T1 = length (m_z m) \<and> m_z m \<noteq> [] \<and> (melt \<longrightarrow> m_pmp m \<noteq> [])"
  proof
    assume r: "Robin_T e m c melt = Inr T1"
    have z: "m_z m \<noteq> []" and p: "melt \<longrightarrow> m_pmp m \<noteq> []"
      using Robin_T_returns [OF r] by blast+
    obtain z0 zs where zc: "m_z m = z0 # zs" using z by (cases "m_z m") simp_all
    have "length T1 = length (m_z m)"
      using r p unfolding Robin_T_value [OF zc] by (auto split: if_splits list.splits)
    with z p show "length T1 = length (m_z m) \<and> m_z m \<noteq> [] \<and> (melt \<longrightarrow> m_pmp m \<noteq> [])"
      by blast
  qed
  have c2: "Robin_T e m c melt = Inr T1 \<and> m_z m = z0 # zs \<and> (melt \<longrightarrow> m_pmp m = pmp0 # ps) \<longrightarrow>
      T1 = map (robin_point e m (robin_q2 m c)
                  (if melt \<and> fgt (robin_point e m (robin_q2 m c)
                                    (- Fin (m_qgeo m) / Fin (c_k c)) z0) (Fin pmp0)
                   then robin_melt_grad e m (diffusivity c) (robin_q2 m c) pmp0
                   else - Fin (m_qgeo m) / Fin (c_k c))) (m_z m)"
  proof
    assume "Robin_T e m c melt = Inr T1 \<and> m_z m = z0 # zs \<and> (melt \<longrightarrow> m_pmp m = pmp0 # ps)"
    then have r: "Robin_T e m c melt = Inr T1" and zc: "m_z m = z0 # zs"
      and p: "melt \<longrightarrow> m_pmp m = pmp0 # ps" by blast+
    show "T1 = map (robin_point e m (robin_q2 m c)
                  (if melt \<and> fgt (robin_point e m (robin_q2 m c)
                                    (- Fin (m_qgeo m) / Fin (c_k c)) z0) (Fin pmp0)
                   then robin_melt_grad e m (diffusivity c) (robin_q2 m c) pmp0
                   else - Fin (m_qgeo m) / Fin (c_k c))) (m_z m)"
    proof (cases melt)
      case True
      with p have "m_pmp m = pmp0 # ps" by simp
      with r True show ?thesis unfolding Robin_T_value [OF zc] by (simp del: fl_divide)
    next
      case False
      with r show ?thesis unfolding Robin_T_value [OF zc] by (simp del: fl_divide)
    qed
  qed
  have c3: "Rezvan_T e m c rate_factor T_ratefactor dHdx tau_dx gamma gamma_plus = Inr T2 \<longrightarrow>
      length T2 = length (m_z m)
      \<and> T2 = map (rezvan_point e m c (diffusivity c)
                    (rezvan_gamma m (diffusivity c) gamma gamma_plus)) (m_z m)"
  proof
    assume r: "Rezvan_T e m c rate_factor T_ratefactor dHdx tau_dx gamma gamma_plus = Inr T2"
    have v: "T2 = map (rezvan_point e m c (diffusivity c)
                    (rezvan_gamma m (diffusivity c) gamma gamma_plus)) (m_z m)"
      using r by (rule Rezvan_T_value)
    have "length T2 = length (m_z m)" by (subst v) simp
    with v show "length T2 = length (m_z m)
      \<and> T2 = map (rezvan_point e m c (diffusivity c)
                    (rezvan_gamma m (diffusivity c) gamma gamma_plus)) (m_z m)" by blast
  qed
  have c4: "Meyer_T e m c rate_factor T_bulk Tb lam = Inr T3 \<longrightarrow> length T3 = length (m_z m)"
  proof
    assume r: "Meyer_T e m c rate_factor T_bulk Tb lam = Inr T3"
    obtain Tbulk where b: "bulk_temperature m T_bulk = Inr Tbulk"
      using Meyer_T_returns [OF r] ..
    show "length T3 = length (m_z m)"
      using r unfolding Meyer_T_value [OF b] by (auto split: if_splits option.splits)
  qed
  have c5: "Meyer_T e m c rate_factor T_bulk Tb lam = Inr T3 \<and> bulk_temperature m T_bulk = Inr Tbulk
        \<and> \<not> meyer_small_Pe e m c Tbulk \<longrightarrow>
      T3 = map (\<lambda>zi. if flt (Fin zi / Fin (m_H m)) (meyer_hbar e m c rate_factor Tbulk Tb lam)
                     then Fin 0
                     else meyer_unclamped e m c rate_factor Tbulk Tb lam zi) (m_z m)"
  proof
    assume "Meyer_T e m c rate_factor T_bulk Tb lam = Inr T3 \<and> bulk_temperature m T_bulk = Inr Tbulk
        \<and> \<not> meyer_small_Pe e m c Tbulk"
    then have r: "Meyer_T e m c rate_factor T_bulk Tb lam = Inr T3"
      and b: "bulk_temperature m T_bulk = Inr Tbulk" and n: "\<not> meyer_small_Pe e m c Tbulk"
      by blast+
    from r n show "T3 = map (\<lambda>zi. if flt (Fin zi / Fin (m_H m)) (meyer_hbar e m c rate_factor Tbulk Tb lam)
                     then Fin 0
                     else meyer_unclamped e m c rate_factor Tbulk Tb lam zi) (m_z m)"
      unfolding Meyer_T_value [OF b] by simp
  qed
  have c6: "Meyer_T e m c rate_factor T_bulk Tb lam = Inr T3 \<and> bulk_temperature m T_bulk = Inr Tbulk
        \<and> meyer_small_Pe e m c Tbulk \<and> glob_H e = Some Hg \<longrightarrow>
      T3 = map (\<lambda>zi. if flt (Fin zi / Fin Hg) (meyer_hbar e m c rate_factor Tbulk Tb lam)
                     then Fin 0
                     else meyer_unclamped e m c rate_factor Tbulk Tb lam zi) (m_z m)"
  proof
    assume "Meyer_T e m c rate_factor T_bulk Tb lam = Inr T3 \<and> bulk_temperature m T_bulk = Inr Tbulk
        \<and> meyer_small_Pe e m c Tbulk \<and> glob_H e = Some Hg"
    then have r: "Meyer_T e m c rate_factor T_bulk Tb lam = Inr T3"
      and b: "bulk_temperature m T_bulk = Inr Tbulk" and n: "meyer_small_Pe e m c Tbulk"
      and h: "glob_H e = Some Hg"
      by blast+
    from r n h show "T3 = map (\<lambda>zi. if flt (Fin zi / Fin Hg) (meyer_hbar e m c rate_factor Tbulk Tb lam)
                     then Fin 0
                     else meyer_unclamped e m c rate_factor Tbulk Tb lam zi) (m_z m)"
      unfolding Meyer_T_value [OF b] by simp
  qed
  have c7: "Perol_T e m c rate_factor T_bulk = Inr T4 \<longrightarrow> length T4 = length (m_z m)"
    using Perol_T_returns(2) by blast
  have c8: "Perol_T e m c rate_factor T_bulk = Inr T4 \<and> bulk_temperature m T_bulk = Inr Tbulk
        \<and> m_pmp m = pmp0 # ps \<longrightarrow>
      T4 = map (perol_point e m (conductivity e Tbulk (c_rho c))
                  (perol_Pe m c (conductivity e Tbulk (c_rho c)) (heat_capacity e Tbulk))
                  (perol_S m c (rate_factor Tbulk c)) pmp0) (m_z m)"
  proof
    assume "Perol_T e m c rate_factor T_bulk = Inr T4 \<and> bulk_temperature m T_bulk = Inr Tbulk
        \<and> m_pmp m = pmp0 # ps"
    then have r: "Perol_T e m c rate_factor T_bulk = Inr T4"
      and b: "bulk_temperature m T_bulk = Inr Tbulk" and p: "m_pmp m = pmp0 # ps" by blast+
    from r show "T4 = map (perol_point e m (conductivity e Tbulk (c_rho c))
                  (perol_Pe m c (conductivity e Tbulk (c_rho c)) (heat_capacity e Tbulk))
                  (perol_S m c (rate_factor Tbulk c)) pmp0) (m_z m)"
      unfolding Perol_T_value [OF b p] by simp
  qed
  show ?thesis by (intro conjI c1 c2 c3 c4 c5 c6 c7 c8)
qed

theorem solver_output_aligned_witness:
  "(\<exists>T. Robin_T (sample_env None) (sample_model 0 (1 / 20)) sample_const True = Inr T
        \<and> length T = length (m_z (sample_model 0 (1 / 20)))
        \<and> T = [Fin (- 5), Fin (- 35 / 2), Fin (- 30)])
   \<and> (\<exists>T. Rezvan_T (sample_env None) (sample_model (1 / 10) (1 / 20)) sample_const
          sample_rate_factor (- 10) 0 0 1 False = Inr T
        \<and> length T = length (m_z (sample_model (1 / 10) (1 / 20)))
        \<and> T ! 2 = Fin (- 30))
   \<and> (\<exists>T. Meyer_T (sample_env None) (sample_model (1 / 10) (1 / 20)) sample_const
          sample_rate_factor None 0 0 = Inr T
        \<and> length T = length (m_z (sample_model (1 / 10) (1 / 20)))
        \<and> T = [Fin (- 30), Fin (- 30), Fin (- 30)])
   \<and> (\<exists>T. Meyer_T (sample_env (Some 1000)) (sample_model 0 (1 / 20)) sample_const
          sample_rate_factor None 0 0 = Inr T
        \<and> length T = length (m_z (sample_model 0 (1 / 20)))
        \<and> T = [Fin (- 30), Fin (- 30), Fin (- 30)])
   \<and> (\<exists>T. Perol_T (sample_env None) (sample_model (1 / 10) (1 / 20)) sample_const
          sample_rate_factor None = Inr T
        \<and> length T = length (m_z (sample_model (1 / 10) (1 / 20)))
        \<and> T ! 0 = Fin (- 1) \<and> T ! 2 = Fin (- 30))"
proof -
  let ?e = "sample_env None"
  let ?ma = "sample_model 0 (1 / 20)"
  let ?mb = "sample_model (1 / 10) (1 / 20)"
  have z0: "m_z ?ma = 0 # [500, 1000]" and p0: "m_pmp ?ma = (- 1) # [- 1 / 2, 0]"
    by (simp_all add: sample_model_def)
  have z: "m_z ?mb = [0, 500, 1000]" and p: "m_pmp ?mb = (- 1) # [- 1 / 2, 0]"
    by (simp_all add: sample_model_def)
  have b: "bulk_temperature ?mb None = Inr (- 31 / 2)" by (rule sample_bulk)
  obtain T1 where T1: "Robin_T ?e ?ma sample_const True = Inr T1"
    using sample_Robin_melt_returns by blast
  obtain T2 where T2: "Rezvan_T ?e ?mb sample_const sample_rate_factor (- 10) 0 0 1 False = Inr T2"
    using sample_Rezvan_linear_returns by blast
  obtain T3 where T3: "Meyer_T ?e ?mb sample_const sample_rate_factor None 0 0 = Inr T3"
    using sample_Meyer_returns by blast
  obtain T4 where T4: "Perol_T ?e ?mb sample_const sample_rate_factor None = Inr T4"
    using sample_Perol_returns by blast
  note al = solver_output_aligned [where e = ?e and c = sample_const
      and rate_factor = sample_rate_factor and T_bulk = None and Tbulk = "- 31 / 2"
      and Tb = 0 and lam = 0 and T_ratefactor = "- 10" and dHdx = 0 and tau_dx = 0
      and gamma = 1 and gamma_plus = False and ?pmp0.0 = "- 1" and ps = "[- 1 / 2, 0]"
      and ?z0.0 = 0 and zs = "[500, 1000]"]
  have r: "length T1 = length (m_z ?ma) \<and> T1 = [Fin (- 5), Fin (- 35 / 2), Fin (- 30)]"
  proof -
    from al [where m = ?ma and melt = True and ?T1.0 = T1] T1 z0 p0
    have l: "length T1 = length (m_z ?ma)"
      and v: "T1 = map (robin_point ?e ?ma (robin_q2 ?ma sample_const)
                  (if True \<and> fgt (robin_point ?e ?ma (robin_q2 ?ma sample_const)
                                    (- Fin (m_qgeo ?ma) / Fin (c_k sample_const)) 0) (Fin (- 1))
                   then robin_melt_grad ?e ?ma (diffusivity sample_const)
                          (robin_q2 ?ma sample_const) (- 1)
                   else - Fin (m_qgeo ?ma) / Fin (c_k sample_const))) (m_z ?ma)"
      by blast+
    have "\<not> fgt (robin_point ?e ?ma (robin_q2 ?ma sample_const)
                   (- Fin (m_qgeo ?ma) / Fin (c_k sample_const)) 0) (Fin (- 1))"
      unfolding sample_robin_point by simp
    with v have "T1 = map (robin_point ?e ?ma (robin_q2 ?ma sample_const)
                        (- Fin (m_qgeo ?ma) / Fin (c_k sample_const))) [0, 500, 1000]"
      by (simp only: z0 simp_thms if_False)
    then have "T1 = [Fin (- 5), Fin (- 35 / 2), Fin (- 30)]"
      unfolding list.map sample_robin_point by simp
    with l show ?thesis ..
  qed
  have rz: "length T2 = length (m_z ?mb) \<and> T2 ! 2 = Fin (- 30)"
  proof -
    from al [where m = ?mb and ?T2.0 = T2] T2
    have l: "length T2 = length (m_z ?mb)"
      and v: "T2 = map (rezvan_point ?e ?mb sample_const (diffusivity sample_const)
                    (rezvan_gamma ?mb (diffusivity sample_const) 1 False)) (m_z ?mb)"
      by blast+
    have "T2 ! 2 = rezvan_point ?e ?mb sample_const (diffusivity sample_const)
                    (rezvan_gamma ?mb (diffusivity sample_const) 1 False) 1000"
      by (subst v) (simp add: z)
    with l show ?thesis by (simp only: sample_rezvan_surface)
  qed
  have my: "length T3 = length (m_z ?mb) \<and> T3 = [Fin (- 30), Fin (- 30), Fin (- 30)]"
  proof -
    from al [where m = ?mb and ?T3.0 = T3] T3 b sample_meyer_large_Pe
    have l: "length T3 = length (m_z ?mb)"
      and v: "T3 = map (\<lambda>zi. if flt (Fin zi / Fin (m_H ?mb))
                              (meyer_hbar ?e ?mb sample_const sample_rate_factor (- 31 / 2) 0 0)
                     then Fin 0
                     else meyer_unclamped ?e ?mb sample_const sample_rate_factor (- 31 / 2) 0 0 zi)
                 (m_z ?mb)"
      by blast+
    have H: "m_H ?mb = 1000" by (simp add: sample_model_def)
    have "T3 = map (\<lambda>zi. if flt (Fin zi / Fin 1000) (Fin 0) then Fin 0 else Fin (- 30))
                 [0, 500, 1000]"
      using v unfolding sample_meyer_hbar sample_meyer_unclamped z H .
    then have "T3 = [Fin (- 30), Fin (- 30), Fin (- 30)]" by simp
    with l show ?thesis ..
  qed
  have pl: "length T4 = length (m_z ?mb) \<and> T4 ! 0 = Fin (- 1) \<and> T4 ! 2 = Fin (- 30)"
  proof -
    from al [where m = ?mb and ?T4.0 = T4] T4 b p
    have l: "length T4 = length (m_z ?mb)"
      and v: "T4 = map (perol_point ?e ?mb (conductivity ?e (- 31 / 2) (c_rho sample_const))
                  (perol_Pe ?mb sample_const (conductivity ?e (- 31 / 2) (c_rho sample_const))
                     (heat_capacity ?e (- 31 / 2)))
                  (perol_S ?mb sample_const (sample_rate_factor (- 31 / 2) sample_const)) (- 1))
                 (m_z ?mb)"
      by blast+
    have v': "T4 = map (perol_point ?e ?mb 2 (perol_Pe ?mb sample_const 2 2000)
                          (perol_S ?mb sample_const 1) (- 1)) [0, 500, 1000]"
      using v unfolding sample_collaborators sample_rate_factor_def z .
    have "T4 ! 0 = Fin (- 1)" "T4 ! 2 = Fin (- 30)"
      by (subst v', simp add: sample_perol_ends)+
    with l show ?thesis by blast
  qed
  obtain T5 where T5: "Meyer_T (sample_env (Some 1000)) ?ma sample_const sample_rate_factor
      None 0 0 = Inr T5"
    using sample_Meyer_still_returns by blast
  have ms: "length T5 = length (m_z ?ma) \<and> T5 = [Fin (- 30), Fin (- 30), Fin (- 30)]"
  proof -
    have h: "glob_H (sample_env (Some 1000)) = Some 1000" by (simp add: sample_env_def)
    from solver_output_aligned [where e = "sample_env (Some 1000)" and m = ?ma
        and c = sample_const and rate_factor = sample_rate_factor and T_bulk = None
        and Tbulk = "- 31 / 2" and Tb = 0 and lam = 0 and ?T3.0 = T5 and Hg = 1000]
      T5 sample_bulk [of 0 "1 / 20"] sample_meyer_small_Pe [of "Some 1000"] h
    have l: "length T5 = length (m_z ?ma)"
      and v: "T5 = map (\<lambda>zi. if flt (Fin zi / Fin 1000)
                              (meyer_hbar (sample_env (Some 1000)) ?ma sample_const
                                 sample_rate_factor (- 31 / 2) 0 0)
                     then Fin 0
                     else meyer_unclamped (sample_env (Some 1000)) ?ma sample_const
                            sample_rate_factor (- 31 / 2) 0 0 zi)
                 (m_z ?ma)"
      by blast+
    have "T5 = map (\<lambda>zi. if flt (Fin zi / Fin 1000) (Fin 0) then Fin 0 else Fin (- 30))
                 (0 # [500, 1000])"
      using v unfolding sample_meyer_still_hbar sample_meyer_still_unclamped z0 .
    then have "T5 = [Fin (- 30), Fin (- 30), Fin (- 30)]" by simp
    with l show ?thesis ..
  qed
  have "\<exists>T. Robin_T ?e ?ma sample_const True = Inr T \<and> length T = length (m_z ?ma)
        \<and> T = [Fin (- 5), Fin (- 35 / 2), Fin (- 30)]"
    using r T1 by blast
  moreover have "\<exists>T. Rezvan_T ?e ?mb sample_const sample_rate_factor (- 10) 0 0 1 False = Inr T
        \<and> length T = length (m_z ?mb) \<and> T ! 2 = Fin (- 30)"
    using rz T2 by blast
  moreover have "\<exists>T. Meyer_T ?e ?mb sample_const sample_rate_factor None 0 0 = Inr T
        \<and> length T = length (m_z ?mb) \<and> T = [Fin (- 30), Fin (- 30), Fin (- 30)]"
    using my T3 by blast
  moreover have "\<exists>T. Meyer_T (sample_env (Some 1000)) ?ma sample_const sample_rate_factor
          None 0 0 = Inr T
        \<and> length T = length (m_z ?ma) \<and> T = [Fin (- 30), Fin (- 30), Fin (- 30)]"
    using ms T5 by blast
  moreover have "\<exists>T. Perol_T ?e ?mb sample_const sample_rate_factor None = Inr T
        \<and> length T = length (m_z ?mb) \<and> T ! 0 = Fin (- 1) \<and> T ! 2 = Fin (- 30)"
    using pl T4 by blast
  ultimately show ?thesis by (intro conjI)
qed

end
